theory Spec2Isabelle
  imports Main
begin

section \<open>Domain models (server.js, lines 16-66)\<close>

datatype EventTypes =
    MEMBER_REGISTERED
  | PLANT_OFFERED
  | PLANT_WANTED
  | MESSAGE_SENT
  | TRADE_INITIATED
  | TRADE_COMPLETED
  | PLANT_REMOVED

text \<open>
  A field read from a request body is a JavaScript value: it may be missing
  (\<open>undefined\<close>), \<open>null\<close>, or a string.  Identifiers produced by \<open>uuidv4()\<close> and
  timestamps produced by \<open>new Date().toISOString()\<close> are always strings; both calls
  are effects, so the functions below take their results as arguments.
\<close>

datatype jsval = Undefined | Null | Str string

record member =
  member_id :: string
  member_name :: jsval
  member_email :: jsval
  member_location :: jsval
  member_bio :: jsval
  member_joinedAt :: string
  member_reputation :: nat

record plant =
  plant_id :: string
  plant_name :: jsval
  plant_description :: jsval
  plant_category :: jsval
  plant_memberId :: jsval
  plant_type :: jsval
  plant_status :: string
  plant_createdAt :: string
  plant_images :: "string list"

record message =
  message_id :: string
  message_fromId :: jsval
  message_toId :: jsval
  message_content :: jsval
  message_tradeId :: jsval
  message_timestamp :: string
  message_read :: bool

text \<open>
  The payload of an event is the entity a command built, or the object
  \<open>{ plantId }\<close> of \<open>removePlant\<close>.
\<close>

datatype payload =
    Member member
  | Plant plant
  | Message message
  | PlantRef jsval

text \<open>\<open>payload.id\<close> and \<open>payload.plantId\<close>: a property the object lacks reads as \<open>undefined\<close>.\<close>

fun payload_id :: "payload \<Rightarrow> jsval" where
  "payload_id (Member m) = Str (member_id m)"
| "payload_id (Plant p) = Str (plant_id p)"
| "payload_id (Message m) = Str (message_id m)"
| "payload_id (PlantRef r) = Undefined"

fun payload_plantId :: "payload \<Rightarrow> jsval" where
  "payload_plantId (PlantRef r) = r"
| "payload_plantId (Member m) = Undefined"
| "payload_plantId (Plant p) = Undefined"
| "payload_plantId (Message m) = Undefined"

text \<open>The object \<open>createEvent\<close> returns; \<open>append\<close> adds \<open>sequenceNumber\<close> to it.\<close>

record event =
  event_id :: string
  event_type :: EventTypes
  event_payload :: payload
  event_memberId :: jsval
  event_timestamp :: string
  event_version :: nat

record stored_event = event +
  sequenceNumber :: nat

text \<open>A parameter with a default takes the default exactly when the argument is \<open>undefined\<close>.\<close>

definition default_param :: "jsval \<Rightarrow> jsval \<Rightarrow> jsval" where
  "default_param d v = (case v of Undefined \<Rightarrow> d | _ \<Rightarrow> v)"

definition createEvent :: "string \<Rightarrow> string \<Rightarrow> EventTypes \<Rightarrow> payload \<Rightarrow> jsval \<Rightarrow> event" where
  "createEvent uuid now type payload memberId =
     \<lparr> event_id = uuid,
       event_type = type,
       event_payload = payload,
       event_memberId = default_param Null memberId,
       event_timestamp = now,
       event_version = 1 \<rparr>"

definition createMember :: "string \<Rightarrow> string \<Rightarrow> jsval \<Rightarrow> jsval \<Rightarrow> jsval \<Rightarrow> jsval \<Rightarrow> member" where
  "createMember uuid now name email location bio =
     \<lparr> member_id = uuid,
       member_name = name,
       member_email = email,
       member_location = location,
       member_bio = default_param (Str []) bio,
       member_joinedAt = now,
       member_reputation = 0 \<rparr>"

definition createPlant ::
  "string \<Rightarrow> string \<Rightarrow> jsval \<Rightarrow> jsval \<Rightarrow> jsval \<Rightarrow> jsval \<Rightarrow> jsval \<Rightarrow> plant" where
  "createPlant uuid now name description category memberId type =
     \<lparr> plant_id = uuid,
       plant_name = name,
       plant_description = description,
       plant_category = category,
       plant_memberId = memberId,
       plant_type = default_param (Str ''offer'') type,
       plant_status = ''available'',
       plant_createdAt = now,
       plant_images = [] \<rparr>"

definition createMessage :: "string \<Rightarrow> string \<Rightarrow> jsval \<Rightarrow> jsval \<Rightarrow> jsval \<Rightarrow> jsval \<Rightarrow> message" where
  "createMessage uuid now fromId toId content tradeId =
     \<lparr> message_id = uuid,
       message_fromId = fromId,
       message_toId = toId,
       message_content = content,
       message_tradeId = default_param Null tradeId,
       message_timestamp = now,
       message_read = False \<rparr>"

section \<open>JavaScript containers\<close>

subsection \<open>\<open>Map\<close>: keys in insertion order\<close>

text \<open>
  A \<open>Map\<close> iterates in insertion order.  \<open>set\<close> on a key that is present replaces
  the value where it stands; on a new key it adds the entry at the end.  \<open>delete\<close>
  removes the entry, and does nothing when the key is absent.
\<close>

type_synonym 'v jsmap = "(jsval \<times> 'v) list"

fun map_set :: "jsval \<Rightarrow> 'v \<Rightarrow> 'v jsmap \<Rightarrow> 'v jsmap" where
  "map_set k v [] = [(k, v)]"
| "map_set k v (p # ps) = (if fst p = k then (k, v) # ps else p # map_set k v ps)"

definition map_delete :: "jsval \<Rightarrow> 'v jsmap \<Rightarrow> 'v jsmap" where
  "map_delete k m = filter (\<lambda>p. fst p \<noteq> k) m"

definition map_values :: "'v jsmap \<Rightarrow> 'v list" where
  "map_values m = map snd m"

definition map_keys :: "'v jsmap \<Rightarrow> jsval list" where
  "map_keys m = map fst m"

text \<open>\<open>new Map(entries)\<close> sets the entries one after the other.\<close>

definition new_Map :: "(string \<times> 'v) list \<Rightarrow> 'v jsmap" where
  "new_Map entries = fold (\<lambda>(k, v) m. map_set (Str k) v m) entries []"

subsection \<open>Plain objects: property keys are strings\<close>

text \<open>
  A plain object is kept as its properties in creation order.  A property key is
  a string: \<open>ToString\<close> of the value used as a key.  Enumeration
  (\<open>Object.entries\<close>, \<open>for ... in\<close>) lists the array-index keys first, in ascending
  numeric order, then the other keys in creation order.  (The special key
  \<open>__proto__\<close> is left out: no identifier of this program is that string.)
\<close>

type_synonym 'v jsobject = "(string \<times> 'v) list"

fun ToString :: "jsval \<Rightarrow> string" where
  "ToString Undefined = ''undefined''"
| "ToString Null = ''null''"
| "ToString (Str s) = s"

definition is_digit :: "char \<Rightarrow> bool" where
  "is_digit c = (c \<in> set ''0123456789'')"

definition digit_val :: "char \<Rightarrow> nat" where
  "digit_val c = length (takeWhile (\<lambda>d. d \<noteq> c) ''0123456789'')"

definition str_to_nat :: "string \<Rightarrow> nat" where
  "str_to_nat s = foldl (\<lambda>n c. 10 * n + digit_val c) 0 s"

text \<open>An array index is the canonical decimal form of an integer below \<open>2^32 - 1\<close>.\<close>

definition is_array_index :: "string \<Rightarrow> bool" where
  "is_array_index s =
     (s \<noteq> [] \<and> list_all is_digit s
      \<and> (if hd s = CHR ''0'' then length s = 1 else True)
      \<and> str_to_nat s < 4294967295)"

fun object_set :: "string \<Rightarrow> 'v \<Rightarrow> 'v jsobject \<Rightarrow> 'v jsobject" where
  "object_set k v [] = [(k, v)]"
| "object_set k v (p # ps) = (if fst p = k then (k, v) # ps else p # object_set k v ps)"

definition Object_entries :: "'v jsobject \<Rightarrow> (string \<times> 'v) list" where
  "Object_entries obj =
     sort_key (\<lambda>p. str_to_nat (fst p)) (filter (\<lambda>p. is_array_index (fst p)) obj)
     @ filter (\<lambda>p. \<not> is_array_index (fst p)) obj"

text \<open>Ramda's \<open>fromPairs\<close>: \<open>result[pair[0]] = pair[1]\<close> for each pair in turn.\<close>

definition fromPairs :: "(jsval \<times> 'v) list \<Rightarrow> 'v jsobject" where
  "fromPairs pairs = fold (\<lambda>(k, v) obj. object_set (ToString k) v obj) pairs []"

text \<open>
  Ramda's \<open>omit\<close>.  It first builds an index object with \<open>index[name] = 1\<close> for
  each name; the assignment to \<open>__proto__\<close> of a number creates no property, so
  that name never is a key of the index.  Then a \<open>for ... in\<close> over the object
  copies every property for which \<open>index.hasOwnProperty(prop)\<close> is false.  When
  \<open>hasOwnProperty\<close> is itself one of the names, \<open>index.hasOwnProperty\<close> is the
  number 1 and the first call, if the loop runs at all, throws a \<open>TypeError\<close>.
\<close>

datatype js_error = TypeError | WriteFileError | ResponseWriteError

definition omit :: "jsval list \<Rightarrow> 'v jsobject \<Rightarrow> js_error + 'v jsobject" where
  "omit names obj =
     (let index = filter (\<lambda>name. name \<noteq> ''__proto__'') (map ToString names)
      in if ''hasOwnProperty'' \<in> set index \<and> Object_entries obj \<noteq> []
         then Inl TypeError
         else Inr (fold (\<lambda>(k, v) result. if k \<in> set index then result else object_set k v result)
                     (Object_entries obj) []))"

section \<open>The server state\<close>

text \<open>
  One record holds the state of the objects \<open>PlantExchangeServer\<close> builds: the
  event store, the projections and the set of SSE clients.

  \<^item> \<open>eventHistory\<close> is the array of the event store; \<open>disk\<close> is the content of
    the file (\<open>None\<close> when it is missing or cannot be parsed); \<open>in_flight\<close> are
    the \<open>fs.writeFile\<close> calls that have started and not yet settled, each with
    its document and with a mark that tells whether another write was in
    flight at some moment of its life; \<open>console_errors\<close> counts the calls of
    \<open>console.error\<close>; \<open>listening\<close> tells whether \<open>app.listen\<close> has been called,
    so that requests reach the server.
  \<^item> \<open>members_scan\<close>, \<open>plants_scan\<close> and \<open>messages_scan\<close> are the accumulators
    of the three \<open>scan\<close> operators; \<open>members_value\<close>, \<open>plants_value\<close> and
    \<open>messages_value\<close> are the values of the subjects \<open>members$\<close>, \<open>plants$\<close> and
    \<open>messages$\<close>.
  \<^item> \<open>sseClients\<close> is the set of responses, in insertion order; \<open>failing\<close> are the
    responses on which \<open>write\<close> throws; \<open>wire\<close> records every successful
    \<open>write\<close>, oldest first, as the response and the message written.
\<close>

record snapshot =
  state_members :: "payload list"
  state_plants :: "payload list"
  state_messages :: "payload list"

datatype sse_message =
    Initial_state snapshot
  | Event_msg stored_event
  | Members_updated "payload list"
  | Plants_updated "payload list"
  | Messages_updated "payload list"

text \<open>A write started by \<open>persist\<close> and not yet settled.\<close>

record pending_write =
  document :: "stored_event list"
  overlapped :: bool

record server =
  eventHistory :: "stored_event list"
  disk :: "stored_event list option"
  in_flight :: "pending_write list"
  console_errors :: nat
  listening :: bool
  members_scan :: "payload jsmap"
  plants_scan :: "payload jsmap"
  messages_scan :: "payload jsmap"
  members_value :: "payload jsmap"
  plants_value :: "payload jsmap"
  messages_value :: "payload jsmap"
  sseClients :: "nat list"
  failing :: "nat list"
  wire :: "(nat \<times> sse_message) list"

section \<open>Fan-out to the SSE clients (server.js, lines 371-412)\<close>

text \<open>\<open>client.write(message)\<close>: throws on a failing response, else the message is sent.\<close>

definition client_write :: "nat \<Rightarrow> sse_message \<Rightarrow> server \<Rightarrow> js_error + server" where
  "client_write client msg st =
     (if client \<in> set (failing st) then Inl ResponseWriteError
      else Inr (st\<lparr>wire := wire st @ [(client, msg)]\<rparr>))"

text \<open>
  \<open>broadcastToSSEClients\<close>: \<open>forEach\<close> visits the clients in insertion order.
  \<open>broadcast_to\<close> is its callback: a client whose \<open>write\<close> throws is deleted from
  the set, the others are not affected.
\<close>

definition broadcast_to :: "sse_message \<Rightarrow> nat \<Rightarrow> server \<Rightarrow> server" where
  "broadcast_to data client st =
     (case client_write client data st of
        Inr st' \<Rightarrow> st'
      | Inl error \<Rightarrow> st\<lparr>sseClients := removeAll client (sseClients st)\<rparr>)"

definition broadcastToSSEClients :: "sse_message \<Rightarrow> server \<Rightarrow> server" where
  "broadcastToSSEClients data st = fold (broadcast_to data) (sseClients st) st"

text \<open>
  \<open>next\<close> on each of the three subjects stores the value and calls the
  subscriber that \<open>setupSSE\<close> registered on it.
\<close>

definition members_next :: "payload jsmap \<Rightarrow> server \<Rightarrow> server" where
  "members_next m st =
     broadcastToSSEClients (Members_updated (map_values m)) (st\<lparr>members_value := m\<rparr>)"

definition plants_next :: "payload jsmap \<Rightarrow> server \<Rightarrow> server" where
  "plants_next m st =
     broadcastToSSEClients (Plants_updated (map_values m)) (st\<lparr>plants_value := m\<rparr>)"

definition messages_next :: "payload jsmap \<Rightarrow> server \<Rightarrow> server" where
  "messages_next m st =
     broadcastToSSEClients (Messages_updated (map_values m)) (st\<lparr>messages_value := m\<rparr>)"

section \<open>State projections (server.js, lines 125-239)\<close>

subsection \<open>The three live pipelines of \<open>setupProjections\<close>\<close>

definition members_filter :: "stored_event \<Rightarrow> bool" where
  "members_filter ev = (event_type ev = MEMBER_REGISTERED)"

definition members_reducer :: "payload jsmap \<Rightarrow> stored_event \<Rightarrow> payload jsmap" where
  "members_reducer members ev =
     map_set (payload_id (event_payload ev)) (event_payload ev) members"

definition plants_filter :: "stored_event \<Rightarrow> bool" where
  "plants_filter ev = (event_type ev \<in> set [PLANT_OFFERED, PLANT_WANTED, PLANT_REMOVED])"

definition plants_reducer :: "payload jsmap \<Rightarrow> stored_event \<Rightarrow> payload jsmap" where
  "plants_reducer plants ev =
     (case event_type ev of
        PLANT_OFFERED \<Rightarrow> map_set (payload_id (event_payload ev)) (event_payload ev) plants
      | PLANT_WANTED \<Rightarrow> map_set (payload_id (event_payload ev)) (event_payload ev) plants
      | PLANT_REMOVED \<Rightarrow> map_delete (payload_plantId (event_payload ev)) plants
      | _ \<Rightarrow> plants)"

definition messages_filter :: "stored_event \<Rightarrow> bool" where
  "messages_filter ev = (event_type ev = MESSAGE_SENT)"

definition messages_reducer :: "payload jsmap \<Rightarrow> stored_event \<Rightarrow> payload jsmap" where
  "messages_reducer messages ev =
     map_set (payload_id (event_payload ev)) (event_payload ev) messages"

text \<open>
  Each pipeline is \<open>filter\<close>, then \<open>scan\<close> from the seed \<open>new Map()\<close>, subscribed
  by the subject: an event that passes the filter is folded into the
  accumulator of the \<open>scan\<close>, and the new accumulator is passed to \<open>next\<close> of the
  subject.
\<close>

definition members_pipeline :: "stored_event \<Rightarrow> server \<Rightarrow> server" where
  "members_pipeline ev st =
     (if members_filter ev
      then let newMembers = members_reducer (members_scan st) ev
           in members_next newMembers (st\<lparr>members_scan := newMembers\<rparr>)
      else st)"

definition plants_pipeline :: "stored_event \<Rightarrow> server \<Rightarrow> server" where
  "plants_pipeline ev st =
     (if plants_filter ev
      then let newPlants = plants_reducer (plants_scan st) ev
           in plants_next newPlants (st\<lparr>plants_scan := newPlants\<rparr>)
      else st)"

definition messages_pipeline :: "stored_event \<Rightarrow> server \<Rightarrow> server" where
  "messages_pipeline ev st =
     (if messages_filter ev
      then let newMessages = messages_reducer (messages_scan st) ev
           in messages_next newMessages (st\<lparr>messages_scan := newMessages\<rparr>)
      else st)"

text \<open>
  \<open>events$.next(event)\<close> calls the observers of the subject in the order in
  which they subscribed.  The constructor of \<open>PlantExchangeServer\<close> builds the
  projections first (\<open>setupProjections\<close> subscribes the three pipelines) and
  calls \<open>setupSSE\<close> last, so the subscriber that broadcasts the event itself
  is the fourth and last observer.
\<close>

definition events_next :: "stored_event \<Rightarrow> server \<Rightarrow> server" where
  "events_next ev st =
     broadcastToSSEClients (Event_msg ev)
       (messages_pipeline ev (plants_pipeline ev (members_pipeline ev st)))"

subsection \<open>\<open>rebuildFromHistory\<close> and \<open>getCurrentState\<close>\<close>

definition rebuild_members :: "stored_event list \<Rightarrow> payload jsmap" where
  "rebuild_members events =
     new_Map (Object_entries (fromPairs
       (map (\<lambda>ev. (payload_id (event_payload ev), event_payload ev))
         (filter (\<lambda>ev. event_type ev = MEMBER_REGISTERED) events))))"

definition rebuild_plants :: "stored_event list \<Rightarrow> js_error + payload jsmap" where
  "rebuild_plants events =
     (let plants = fromPairs
            (map (\<lambda>ev. (payload_id (event_payload ev), event_payload ev))
              (filter (\<lambda>ev. event_type ev \<in> set [PLANT_OFFERED, PLANT_WANTED]) events));
          removedPlants =
            map (\<lambda>ev. payload_plantId (event_payload ev))
              (filter (\<lambda>ev. event_type ev = PLANT_REMOVED) events)
      in case omit removedPlants plants of
           Inl error \<Rightarrow> Inl error
         | Inr activePlants \<Rightarrow> Inr (new_Map (Object_entries activePlants)))"

definition rebuild_messages :: "stored_event list \<Rightarrow> payload jsmap" where
  "rebuild_messages events =
     new_Map (Object_entries (fromPairs
       (map (\<lambda>ev. (payload_id (event_payload ev), event_payload ev))
         (filter (\<lambda>ev. event_type ev = MESSAGE_SENT) events))))"

text \<open>
  \<open>rebuildFromHistory\<close> sets the members first.  If \<open>omit\<close> throws, the function
  ends there with the error: \<open>plants$\<close> and \<open>messages$\<close> keep what they held.
\<close>

definition rebuildFromHistory :: "server \<Rightarrow> (js_error + unit) \<times> server" where
  "rebuildFromHistory st =
     (let events = eventHistory st;
          st1 = members_next (rebuild_members events) st
      in case rebuild_plants events of
           Inl error \<Rightarrow> (Inl error, st1)
         | Inr activePlants \<Rightarrow>
             (Inr (), messages_next (rebuild_messages events) (plants_next activePlants st1)))"

definition getCurrentState :: "server \<Rightarrow> snapshot" where
  "getCurrentState st =
     \<lparr> state_members = map_values (members_value st),
       state_plants = map_values (plants_value st),
       state_messages = map_values (messages_value st) \<rparr>"

section \<open>Event store (server.js, lines 72-119)\<close>

definition with_sequenceNumber :: "event \<Rightarrow> nat \<Rightarrow> stored_event" where
  "with_sequenceNumber ev n =
     \<lparr> event_id = event_id ev,
       event_type = event_type ev,
       event_payload = event_payload ev,
       event_memberId = event_memberId ev,
       event_timestamp = event_timestamp ev,
       event_version = event_version ev,
       sequenceNumber = n \<rparr>"

text \<open>
  \<open>initialize\<close>: the history becomes the content of the file, or the empty
  array when reading or parsing fails.
\<close>

definition initialize :: "server \<Rightarrow> server" where
  "initialize st =
     (case disk st of
        Some events \<Rightarrow> st\<lparr>eventHistory := events\<rparr>
      | None \<Rightarrow> st\<lparr>eventHistory := []\<rparr>)"

text \<open>
  \<open>append\<close> runs without interruption up to its \<open>await\<close>: it numbers the event,
  pushes it, calls \<open>events$.next\<close>, and calls \<open>persist\<close>, which serialises the
  history and starts \<open>fs.writeFile\<close>.  \<open>append_begin\<close> is that part; it returns
  the numbered event and the state in which the write is in flight.  A write
  that starts while others are in flight overlaps them, and they overlap it.
\<close>

definition persist_begin :: "server \<Rightarrow> server" where
  "persist_begin st =
     st\<lparr>in_flight := map (\<lambda>w. w\<lparr>overlapped := True\<rparr>) (in_flight st)
                        @ [\<lparr>document = eventHistory st, overlapped = (in_flight st \<noteq> [])\<rparr>]\<rparr>"

definition append_begin :: "event \<Rightarrow> server \<Rightarrow> stored_event \<times> server" where
  "append_begin ev st =
     (let eventWithMetadata = with_sequenceNumber ev (length (eventHistory st) + 1);
          st1 = st\<lparr>eventHistory := eventHistory st @ [eventWithMetadata]\<rparr>;
          st2 = events_next eventWithMetadata st1
      in (eventWithMetadata, persist_begin st2))"

text \<open>
  The write settles later, and what it leaves in the file is not decided by
  the program.  \<open>fs.writeFile\<close> truncates the file and writes the document
  piece by piece, so:
  \<^item> a write that succeeds alone leaves its document;
  \<^item> a write that succeeds while it overlapped another one leaves its
    document, or a mix of the two documents that cannot be parsed
    (\<open>Write_succeeds True\<close>);
  \<^item> a write that fails leaves the file as it was (\<open>Write_fails False\<close>) or
    cut short, which cannot be parsed either (\<open>Write_fails True\<close>).
  A process that is killed in the middle of a write is a write that fails and
  a restart after it.
\<close>

datatype write_result = Write_succeeds bool | Write_fails bool

definition writeFile_settle ::
  "write_result \<Rightarrow> pending_write \<Rightarrow> server \<Rightarrow> (js_error + unit) \<times> server" where
  "writeFile_settle result w st =
     (case result of
        Write_succeeds torn \<Rightarrow>
          (Inr (), st\<lparr>disk := (if torn \<and> overlapped w then None else Some (document w))\<rparr>)
      | Write_fails cut_short \<Rightarrow>
          (Inl WriteFileError, if cut_short then st\<lparr>disk := None\<rparr> else st))"

text \<open>
  The rest of \<open>persist\<close>, for the write at position \<open>k\<close> of \<open>in_flight\<close>: the
  \<open>catch\<close> block logs the error with \<open>console.error\<close> and the function ends
  normally.
\<close>

definition persist_end :: "nat \<Rightarrow> write_result \<Rightarrow> server \<Rightarrow> server" where
  "persist_end k result st =
     (if k < length (in_flight st)
      then let st1 = st\<lparr>in_flight := take k (in_flight st) @ drop (Suc k) (in_flight st)\<rparr>
           in (case writeFile_settle result (in_flight st ! k) st1 of
                 (Inr written, st2) \<Rightarrow> st2
               | (Inl error, st2) \<Rightarrow> st2\<lparr>console_errors := Suc (console_errors st2)\<rparr>)
      else st)"

text \<open>
  A whole call of \<open>append\<close> with no other activity during its \<open>await\<close>: the write
  it started is the last one in flight.  The result is the value the promise
  resolves to (\<open>Inr\<close>) or is rejected with (\<open>Inl\<close>).
\<close>

definition append ::
  "write_result \<Rightarrow> event \<Rightarrow> server \<Rightarrow> (js_error + stored_event) \<times> server" where
  "append result ev st =
     (let (eventWithMetadata, st1) = append_begin ev st;
          st2 = persist_end (length (in_flight st1) - 1) result st1
      in (Inr eventWithMetadata, st2))"

definition getEvents :: "server \<Rightarrow> stored_event list" where
  "getEvents st = eventHistory st"

section \<open>Command handlers (server.js, lines 245-308)\<close>

text \<open>
  The data a command is given, with a field for each property the command
  reads.  The argument itself may be \<open>undefined\<close> or \<open>null\<close>, and then reading a
  property of it throws a \<open>TypeError\<close>; any other value is an object whose
  missing properties read as \<open>undefined\<close> (a number or a string given as the
  argument reads like an object with none of the properties).

  A command calls \<open>uuidv4()\<close> and \<open>new Date()\<close> once for the entity and once
  for the event, and its write to the file settles in some way: \<open>effects\<close>
  holds what these calls give.
\<close>

datatype 'a js_arg = Arg_undefined | Arg_null | Arg_object 'a

record memberData =
  data_name :: jsval
  data_email :: jsval
  data_location :: jsval
  data_bio :: jsval

record plantData =
  plantData_name :: jsval
  plantData_description :: jsval
  plantData_category :: jsval

record messageData =
  data_fromId :: jsval
  data_toId :: jsval
  data_content :: jsval
  data_tradeId :: jsval

record effects =
  entity_uuid :: string
  entity_now :: string
  event_uuid :: string
  event_now :: string
  write_outcome :: write_result

definition registerMember ::
  "effects \<Rightarrow> memberData js_arg \<Rightarrow> server \<Rightarrow> (js_error + stored_event) \<times> server" where
  "registerMember fx memberData st =
     (case memberData of
        Arg_object data \<Rightarrow>
          (let member = createMember (entity_uuid fx) (entity_now fx)
                 (data_name data) (data_email data) (data_location data) (data_bio data);
               ev = createEvent (event_uuid fx) (event_now fx) MEMBER_REGISTERED
                      (Member member) Undefined
           in append (write_outcome fx) ev st)
      | _ \<Rightarrow> (Inl TypeError, st))"

definition offerPlant ::
  "effects \<Rightarrow> plantData js_arg \<Rightarrow> jsval \<Rightarrow> server \<Rightarrow> (js_error + stored_event) \<times> server" where
  "offerPlant fx plantData memberId st =
     (case plantData of
        Arg_object data \<Rightarrow>
          (let plant = createPlant (entity_uuid fx) (entity_now fx)
                 (plantData_name data) (plantData_description data)
                 (plantData_category data) memberId (Str ''offer'');
               ev = createEvent (event_uuid fx) (event_now fx) PLANT_OFFERED (Plant plant) memberId
           in append (write_outcome fx) ev st)
      | _ \<Rightarrow> (Inl TypeError, st))"

definition requestPlant ::
  "effects \<Rightarrow> plantData js_arg \<Rightarrow> jsval \<Rightarrow> server \<Rightarrow> (js_error + stored_event) \<times> server" where
  "requestPlant fx plantData memberId st =
     (case plantData of
        Arg_object data \<Rightarrow>
          (let plant = createPlant (entity_uuid fx) (entity_now fx)
                 (plantData_name data) (plantData_description data)
                 (plantData_category data) memberId (Str ''wanted'');
               ev = createEvent (event_uuid fx) (event_now fx) PLANT_WANTED (Plant plant) memberId
           in append (write_outcome fx) ev st)
      | _ \<Rightarrow> (Inl TypeError, st))"

definition sendMessage ::
  "effects \<Rightarrow> messageData js_arg \<Rightarrow> server \<Rightarrow> (js_error + stored_event) \<times> server" where
  "sendMessage fx messageData st =
     (case messageData of
        Arg_object data \<Rightarrow>
          (let message = createMessage (entity_uuid fx) (entity_now fx)
                 (data_fromId data) (data_toId data) (data_content data) (data_tradeId data);
               ev = createEvent (event_uuid fx) (event_now fx) MESSAGE_SENT (Message message)
                      (data_fromId data)
           in append (write_outcome fx) ev st)
      | _ \<Rightarrow> (Inl TypeError, st))"

text \<open>
  \<open>removePlant\<close> builds no entity and reads no property of its arguments: only
  the event takes an identifier and a time, and nothing can throw.
\<close>

definition removePlant ::
  "effects \<Rightarrow> jsval \<Rightarrow> jsval \<Rightarrow> server \<Rightarrow> (js_error + stored_event) \<times> server" where
  "removePlant fx plantId memberId st =
     (let ev = createEvent (event_uuid fx) (event_now fx) PLANT_REMOVED (PlantRef plantId) memberId
      in append (write_outcome fx) ev st)"

section \<open>The server (server.js, lines 345-539)\<close>

text \<open>
  The handler of \<open>GET /events\<close>: the response joins the set, then the initial
  state is written to it.  This \<open>write\<close> is not inside a \<open>try\<close>: if it throws,
  the handler ends with the error and the response stays in the set.
\<close>

definition events_route :: "nat \<Rightarrow> server \<Rightarrow> (js_error + unit) \<times> server" where
  "events_route res st =
     (let st1 = st\<lparr>sseClients :=
                   (if res \<in> set (sseClients st) then sseClients st else sseClients st @ [res])\<rparr>;
          state = getCurrentState st1
      in case client_write res (Initial_state state) st1 of
           Inr st2 \<Rightarrow> (Inr (), st2)
         | Inl error \<Rightarrow> (Inl error, st1))"

text \<open>The \<open>close\<close> listener of the request.\<close>

definition on_close :: "nat \<Rightarrow> server \<Rightarrow> server" where
  "on_close res st = st\<lparr>sseClients := removeAll res (sseClients st)\<rparr>"

text \<open>
  The constructor: an event store with an empty history, empty subjects and
  accumulators, no client; \<open>setupProjections\<close> ends with \<open>rebuildFromHistory\<close>,
  which cannot throw on the empty history.  The argument is the content of
  the file when the process starts.
\<close>

definition new_PlantExchangeServer :: "stored_event list option \<Rightarrow> server" where
  "new_PlantExchangeServer file =
     snd (rebuildFromHistory
       \<lparr> eventHistory = [], disk = file, in_flight = [], console_errors = 0,
         listening = False,
         members_scan = [], plants_scan = [], messages_scan = [],
         members_value = [], plants_value = [], messages_value = [],
         sseClients = [], failing = [], wire = [] \<rparr>)"

text \<open>
  \<open>start\<close>: the history is loaded and the projections are rebuilt, then the
  server listens.  If \<open>rebuildFromHistory\<close> throws, \<open>start\<close> is rejected and
  \<open>listen\<close> is never called.
\<close>

definition start :: "server \<Rightarrow> (js_error + unit) \<times> server" where
  "start st =
     (case rebuildFromHistory (initialize st) of
        (Inr rebuilt, st1) \<Rightarrow> (Inr (), st1\<lparr>listening := True\<rparr>)
      | (Inl error, st1) \<Rightarrow> (Inl error, st1))"

text \<open>
  The bootstrap at the end of the file: \<open>new PlantExchangeServer()\<close>, then
  \<open>start().catch(console.error)\<close>.
\<close>

definition bootstrap :: "stored_event list option \<Rightarrow> server" where
  "bootstrap file =
     (case start (new_PlantExchangeServer file) of
        (Inr started, st) \<Rightarrow> st
      | (Inl error, st) \<Rightarrow> st\<lparr>console_errors := Suc (console_errors st)\<rparr>)"

subsection \<open>What can happen to a running server\<close>

text \<open>
  Between two \<open>await\<close>s JavaScript runs one piece of code to its end, so the
  life of the server is a sequence of these steps: a call of \<open>append\<close> runs up
  to its \<open>await\<close>; a write in flight settles in one of the ways above; a
  client connects to \<open>/events\<close>; a client closes its request; a response
  starts to throw on \<open>write\<close>; the process is stopped and a new one is started
  on the same file.  A request (an append, a connection) reaches the server
  only while it listens.
\<close>

datatype action =
    Append_begin event
  | Write_settles nat write_result
  | Sse_connect nat
  | Sse_close nat
  | Response_breaks nat
  | Restart

fun step :: "action \<Rightarrow> server \<Rightarrow> server" where
  "step (Append_begin ev) st = (if listening st then snd (append_begin ev st) else st)"
| "step (Write_settles k result) st = persist_end k result st"
| "step (Sse_connect res) st = (if listening st then snd (events_route res st) else st)"
| "step (Sse_close res) st = on_close res st"
| "step (Response_breaks res) st = st\<lparr>failing := res # failing st\<rparr>"
| "step Restart st = bootstrap (disk st)"

definition run :: "action list \<Rightarrow> server \<Rightarrow> server" where
  "run acts st = fold step acts st"

text \<open>The first process ever started: there is no file yet.\<close>

definition first_boot :: server where
  "first_boot = bootstrap None"

section \<open>The arrays of the event store as objects in a store\<close>

text \<open>
  \<open>getEvents\<close> returns \<open>[...this.eventHistory]\<close>.  What a caller can do to the
  array it gets depends on which array object that is, so here arrays live in
  a store: \<open>cells\<close> holds the content of every array allocated so far, an
  array is named by its position, and \<open>eventHistory_ref\<close> is the array the
  field \<open>this.eventHistory\<close> points to.
\<close>

record array_store =
  cells :: "stored_event list list"
  eventHistory_ref :: nat

definition new_EventStore :: array_store where
  "new_EventStore = \<lparr> cells = [[]], eventHistory_ref = 0 \<rparr>"

text \<open>Any mutation of the array at address \<open>a\<close> (\<open>push\<close>, \<open>pop\<close>, \<open>splice\<close>, \<open>a[i] = e\<close>, ...).\<close>

definition array_mutate ::
  "nat \<Rightarrow> (stored_event list \<Rightarrow> stored_event list) \<Rightarrow> array_store \<Rightarrow> array_store" where
  "array_mutate a f h = h\<lparr>cells := (cells h)[a := f (cells h ! a)]\<rparr>"

definition array_push :: "nat \<Rightarrow> stored_event \<Rightarrow> array_store \<Rightarrow> array_store" where
  "array_push a e h = array_mutate a (\<lambda>xs. xs @ [e]) h"

text \<open>The spread allocates a new array and copies the elements into it.\<close>

definition getEvents_ref :: "array_store \<Rightarrow> nat \<times> array_store" where
  "getEvents_ref h =
     (length (cells h), h\<lparr>cells := cells h @ [cells h ! eventHistory_ref h]\<rparr>)"

text \<open>What \<open>append\<close> does to the arrays: \<open>this.eventHistory.push(eventWithMetadata)\<close>.\<close>

definition append_ref :: "event \<Rightarrow> array_store \<Rightarrow> stored_event \<times> array_store" where
  "append_ref ev h =
     (let eventWithMetadata =
            with_sequenceNumber ev (length (cells h ! eventHistory_ref h) + 1)
      in (eventWithMetadata, array_push (eventHistory_ref h) eventWithMetadata h))"

definition history_of :: "array_store \<Rightarrow> stored_event list" where
  "history_of h = cells h ! eventHistory_ref h"

section \<open>Observations and sample data\<close>

text \<open>The messages written to one response, oldest first.\<close>

definition received :: "nat \<Rightarrow> server \<Rightarrow> sse_message list" where
  "received res st = map snd (filter (\<lambda>p. fst p = res) (wire st))"

text \<open>A history is well numbered when its events carry 1, 2, 3, ... in this order.\<close>

definition well_numbered :: "stored_event list \<Rightarrow> bool" where
  "well_numbered events = (map sequenceNumber events = [1..<Suc (length events)])"

text \<open>
  The numbering invariant of the store: the history, every document being
  written and the file are well numbered.
\<close>

definition store_ok :: "server \<Rightarrow> bool" where
  "store_ok st =
     (well_numbered (eventHistory st) \<and> list_all (\<lambda>w. well_numbered (document w)) (in_flight st)
      \<and> (case disk st of None \<Rightarrow> True | Some events \<Rightarrow> well_numbered events))"

text \<open>Sample requests: two registrations, two plants, a removal, a message.\<close>

definition ann :: "memberData js_arg" where
  "ann = Arg_object \<lparr> data_name = Str ''Ann'', data_email = Str ''ann@example.org'',
           data_location = Str ''Oslo'', data_bio = Undefined \<rparr>"

definition empty_memberData :: "memberData js_arg" where
  "empty_memberData = Arg_object \<lparr> data_name = Undefined, data_email = Undefined,
           data_location = Undefined, data_bio = Undefined \<rparr>"

definition fx_ok :: effects where
  "fx_ok = \<lparr> entity_uuid = ''M1'', entity_now = ''t1'', event_uuid = ''E1'',
             event_now = ''t1'', write_outcome = Write_succeeds False \<rparr>"

definition fx_fail :: effects where
  "fx_fail = \<lparr> entity_uuid = ''M1'', entity_now = ''t1'', event_uuid = ''E1'',
               event_now = ''t1'', write_outcome = Write_fails False \<rparr>"

text \<open>A write that succeeds and leaves its document.\<close>

definition written :: write_result where
  "written = Write_succeeds False"

definition member_M1 :: payload where
  "member_M1 = Member (createMember ''M1'' ''t1'' (Str ''Ann'') Undefined Undefined Undefined)"

definition member_M2 :: payload where
  "member_M2 = Member (createMember ''M2'' ''t2'' (Str ''Bob'') Undefined Undefined Undefined)"

definition plant_P1 :: payload where
  "plant_P1 = Plant (createPlant ''P1'' ''t3'' (Str ''Fern'') Undefined Undefined (Str ''M1'') (Str ''offer''))"

definition plant_P2 :: payload where
  "plant_P2 = Plant (createPlant ''P2'' ''t4'' (Str ''Ivy'') Undefined Undefined (Str ''M1'') (Str ''wanted''))"

definition message_G1 :: payload where
  "message_G1 = Message (createMessage ''G1'' ''t6'' (Str ''M1'') (Str ''M2'') (Str ''hello'') Undefined)"

definition ev_M1 :: event where
  "ev_M1 = createEvent ''E1'' ''t1'' MEMBER_REGISTERED member_M1 Undefined"

definition ev_M2 :: event where
  "ev_M2 = createEvent ''E2'' ''t2'' MEMBER_REGISTERED member_M2 Undefined"

definition ev_P1 :: event where
  "ev_P1 = createEvent ''E3'' ''t3'' PLANT_OFFERED plant_P1 (Str ''M1'')"

definition ev_P2 :: event where
  "ev_P2 = createEvent ''E4'' ''t4'' PLANT_WANTED plant_P2 (Str ''M1'')"

definition ev_remove_P1 :: event where
  "ev_remove_P1 = createEvent ''E5'' ''t5'' PLANT_REMOVED (PlantRef (Str ''P1'')) (Str ''M1'')"

definition ev_remove_P9 :: event where
  "ev_remove_P9 = createEvent ''E7'' ''t7'' PLANT_REMOVED (PlantRef (Str ''P9'')) (Str ''M1'')"

definition ev_G1 :: event where
  "ev_G1 = createEvent ''E6'' ''t6'' MESSAGE_SENT message_G1 (Str ''M1'')"

text \<open>What \<open>DELETE /api/plants/hasOwnProperty\<close> appends.\<close>

definition ev_remove_hasOwnProperty :: event where
  "ev_remove_hasOwnProperty =
     createEvent ''E8'' ''t8'' PLANT_REMOVED (PlantRef (Str ''hasOwnProperty'')) Undefined"

text \<open>Five appends whose writes all succeed, and a server with one client connected.\<close>

definition five_appends :: "action list" where
  "five_appends =
     [Append_begin ev_M1, Write_settles 0 written, Append_begin ev_P1, Write_settles 0 written,
      Append_begin ev_P2, Write_settles 0 written,
      Append_begin ev_remove_P1, Write_settles 0 written,
      Append_begin ev_G1, Write_settles 0 written]"

definition one_client :: server where
  "one_client = run [Sse_connect 0] first_boot"

text \<open>A first process registers M1 and is stopped; the next process registers M2.\<close>

definition after_restart :: server where
  "after_restart =
     run [Append_begin ev_M1, Write_settles 0 written, Restart,
          Append_begin ev_M2, Write_settles 0 written] first_boot"

text \<open>Two plants are listed; then the same, followed by a restart.\<close>

definition two_plants :: server where
  "two_plants = run [Append_begin ev_P1, Write_settles 0 written,
                     Append_begin ev_P2, Write_settles 0 written] first_boot"

definition two_plants_restarted :: server where
  "two_plants_restarted = run [Restart] two_plants"

text \<open>
  A member is registered and two plants are listed; the process is
  restarted; then P1 is removed and a message is sent.
\<close>

definition five_events_one_restart :: server where
  "five_events_one_restart =
     run [Append_begin ev_M1, Write_settles 0 written, Append_begin ev_P1, Write_settles 0 written,
          Append_begin ev_P2, Write_settles 0 written, Restart,
          Append_begin ev_remove_P1, Write_settles 0 written,
          Append_begin ev_G1, Write_settles 0 written] first_boot"

text \<open>
  A plant is offered and \<open>DELETE /api/plants/hasOwnProperty\<close> is served; then
  the process is restarted on the file.
\<close>

definition removed_hasOwnProperty :: server where
  "removed_hasOwnProperty =
     run [Append_begin ev_P1, Write_settles 0 written,
          Append_begin ev_remove_hasOwnProperty, Write_settles 0 written, Restart] first_boot"

text \<open>One append has reached its \<open>await\<close>; no other write is in flight.\<close>

definition one_write_in_flight :: server where
  "one_write_in_flight = run [Append_begin ev_M1] first_boot"

definition two_arrays :: array_store where
  "two_arrays = snd (append_ref ev_M1 new_EventStore)"

section \<open>Broadcasting: what it changes and what it leaves\<close>

lemma fold_broadcast_to_keeps:
  assumes "\<And>c s. g (broadcast_to d c s) = g s"
  shows "g (fold (broadcast_to d) cs s) = g s"
  by (induction cs arbitrary: s) (simp_all add: assms)

lemma broadcast_keeps:
  assumes "\<And>s w. g (s\<lparr>wire := w\<rparr>) = g s" and "\<And>s cs. g (s\<lparr>sseClients := cs\<rparr>) = g s"
  shows "g (broadcastToSSEClients d st) = g st"
  unfolding broadcastToSSEClients_def
  by (rule fold_broadcast_to_keeps) (simp add: broadcast_to_def client_write_def assms)

lemma broadcast_core [simp]:
  "eventHistory (broadcastToSSEClients d st) = eventHistory st"
  "disk (broadcastToSSEClients d st) = disk st"
  "in_flight (broadcastToSSEClients d st) = in_flight st"
  "console_errors (broadcastToSSEClients d st) = console_errors st"
  "failing (broadcastToSSEClients d st) = failing st"
  "listening (broadcastToSSEClients d st) = listening st"
  "members_scan (broadcastToSSEClients d st) = members_scan st"
  "plants_scan (broadcastToSSEClients d st) = plants_scan st"
  "messages_scan (broadcastToSSEClients d st) = messages_scan st"
  "members_value (broadcastToSSEClients d st) = members_value st"
  "plants_value (broadcastToSSEClients d st) = plants_value st"
  "messages_value (broadcastToSSEClients d st) = messages_value st"
  by (rule broadcast_keeps; simp)+

lemma fold_broadcast_to_clients:
  "failing (fold (broadcast_to d) cs s) = failing s \<and>
   sseClients (fold (broadcast_to d) cs s)
     = filter (\<lambda>c. \<not> (c \<in> set cs \<and> c \<in> set (failing s))) (sseClients s) \<and>
   wire (fold (broadcast_to d) cs s)
     = wire s @ map (\<lambda>c. (c, d)) (filter (\<lambda>c. c \<notin> set (failing s)) cs)"
proof (induction cs arbitrary: s)
  case Nil
  then show ?case by simp
next
  case (Cons c cs)
  show ?case
  proof (cases "c \<in> set (failing s)")
    case True
    then have step: "broadcast_to d c s = s\<lparr>sseClients := removeAll c (sseClients s)\<rparr>"
      by (simp add: broadcast_to_def client_write_def)
    have "filter (\<lambda>x. \<not> (x \<in> set cs \<and> x \<in> set (failing s))) (removeAll c (sseClients s))
          = filter (\<lambda>x. \<not> ((x = c \<or> x \<in> set cs) \<and> x \<in> set (failing s))) (sseClients s)"
      using True by (simp add: removeAll_filter_not_eq) (rule filter_cong, auto)
    then show ?thesis using True Cons.IH [of "broadcast_to d c s"] by (simp add: step)
  next
    case False
    then have step: "broadcast_to d c s = s\<lparr>wire := wire s @ [(c, d)]\<rparr>"
      by (simp add: broadcast_to_def client_write_def)
    have "filter (\<lambda>x. \<not> (x \<in> set cs \<and> x \<in> set (failing s))) (sseClients s)
          = filter (\<lambda>x. \<not> ((x = c \<or> x \<in> set cs) \<and> x \<in> set (failing s))) (sseClients s)"
      using False by (intro filter_cong) auto
    then show ?thesis using False Cons.IH [of "broadcast_to d c s"] by (simp add: step)
  qed
qed

lemma broadcast_sseClients:
  "sseClients (broadcastToSSEClients d st) = filter (\<lambda>c. c \<notin> set (failing st)) (sseClients st)"
  unfolding broadcastToSSEClients_def
  by (simp add: fold_broadcast_to_clients cong: filter_cong)

lemma broadcast_wire:
  "wire (broadcastToSSEClients d st)
     = wire st @ map (\<lambda>c. (c, d)) (filter (\<lambda>c. c \<notin> set (failing st)) (sseClients st))"
  unfolding broadcastToSSEClients_def
  by (simp add: fold_broadcast_to_clients)

lemma broadcast_received:
  "received res (broadcastToSSEClients d st)
     = received res st @ map (\<lambda>c. d) (filter (\<lambda>c. c = res \<and> c \<notin> set (failing st)) (sseClients st))"
  by (simp add: received_def broadcast_wire filter_map comp_def conj_commute)

lemma next_core [simp]:
  "eventHistory (members_next m st) = eventHistory st"
  "eventHistory (plants_next m st) = eventHistory st"
  "eventHistory (messages_next m st) = eventHistory st"
  "disk (members_next m st) = disk st"
  "disk (plants_next m st) = disk st"
  "disk (messages_next m st) = disk st"
  "in_flight (members_next m st) = in_flight st"
  "in_flight (plants_next m st) = in_flight st"
  "in_flight (messages_next m st) = in_flight st"
  "console_errors (members_next m st) = console_errors st"
  "console_errors (plants_next m st) = console_errors st"
  "console_errors (messages_next m st) = console_errors st"
  "failing (members_next m st) = failing st"
  "failing (plants_next m st) = failing st"
  "failing (messages_next m st) = failing st"
  "listening (members_next m st) = listening st"
  "listening (plants_next m st) = listening st"
  "listening (messages_next m st) = listening st"
  by (simp_all add: members_next_def plants_next_def messages_next_def)

lemma next_scans [simp]:
  "members_scan (members_next m st) = members_scan st"
  "members_scan (plants_next m st) = members_scan st"
  "members_scan (messages_next m st) = members_scan st"
  "plants_scan (members_next m st) = plants_scan st"
  "plants_scan (plants_next m st) = plants_scan st"
  "plants_scan (messages_next m st) = plants_scan st"
  "messages_scan (members_next m st) = messages_scan st"
  "messages_scan (plants_next m st) = messages_scan st"
  "messages_scan (messages_next m st) = messages_scan st"
  by (simp_all add: members_next_def plants_next_def messages_next_def)

lemma next_values [simp]:
  "members_value (members_next m st) = m"
  "members_value (plants_next m st) = members_value st"
  "members_value (messages_next m st) = members_value st"
  "plants_value (members_next m st) = plants_value st"
  "plants_value (plants_next m st) = m"
  "plants_value (messages_next m st) = plants_value st"
  "messages_value (members_next m st) = messages_value st"
  "messages_value (plants_next m st) = messages_value st"
  "messages_value (messages_next m st) = m"
  by (simp_all add: members_next_def plants_next_def messages_next_def)

lemma next_sseClients [simp]:
  "sseClients (members_next m st) = filter (\<lambda>c. c \<notin> set (failing st)) (sseClients st)"
  "sseClients (plants_next m st) = filter (\<lambda>c. c \<notin> set (failing st)) (sseClients st)"
  "sseClients (messages_next m st) = filter (\<lambda>c. c \<notin> set (failing st)) (sseClients st)"
  by (simp_all add: members_next_def plants_next_def messages_next_def broadcast_sseClients)

lemma pipeline_core [simp]:
  "eventHistory (members_pipeline ev st) = eventHistory st"
  "eventHistory (plants_pipeline ev st) = eventHistory st"
  "eventHistory (messages_pipeline ev st) = eventHistory st"
  "disk (members_pipeline ev st) = disk st"
  "disk (plants_pipeline ev st) = disk st"
  "disk (messages_pipeline ev st) = disk st"
  "in_flight (members_pipeline ev st) = in_flight st"
  "in_flight (plants_pipeline ev st) = in_flight st"
  "in_flight (messages_pipeline ev st) = in_flight st"
  "console_errors (members_pipeline ev st) = console_errors st"
  "console_errors (plants_pipeline ev st) = console_errors st"
  "console_errors (messages_pipeline ev st) = console_errors st"
  "failing (members_pipeline ev st) = failing st"
  "failing (plants_pipeline ev st) = failing st"
  "failing (messages_pipeline ev st) = failing st"
  "listening (members_pipeline ev st) = listening st"
  "listening (plants_pipeline ev st) = listening st"
  "listening (messages_pipeline ev st) = listening st"
  by (simp_all add: members_pipeline_def plants_pipeline_def messages_pipeline_def Let_def)

lemma events_next_core [simp]:
  "eventHistory (events_next ev st) = eventHistory st"
  "disk (events_next ev st) = disk st"
  "in_flight (events_next ev st) = in_flight st"
  "console_errors (events_next ev st) = console_errors st"
  "failing (events_next ev st) = failing st"
  "listening (events_next ev st) = listening st"
  by (simp_all add: events_next_def)

lemma rebuild_core [simp]:
  "eventHistory (snd (rebuildFromHistory st)) = eventHistory st"
  "disk (snd (rebuildFromHistory st)) = disk st"
  "in_flight (snd (rebuildFromHistory st)) = in_flight st"
  "console_errors (snd (rebuildFromHistory st)) = console_errors st"
  "failing (snd (rebuildFromHistory st)) = failing st"
  "listening (snd (rebuildFromHistory st)) = listening st"
  "members_scan (snd (rebuildFromHistory st)) = members_scan st"
  "plants_scan (snd (rebuildFromHistory st)) = plants_scan st"
  "messages_scan (snd (rebuildFromHistory st)) = messages_scan st"
  by (simp_all add: rebuildFromHistory_def Let_def split: sum.splits)

lemma rebuild_fst:
  "fst (rebuildFromHistory st)
     = (case rebuild_plants (eventHistory st) of Inl error \<Rightarrow> Inl error | Inr m \<Rightarrow> Inr ())"
  by (simp add: rebuildFromHistory_def Let_def split: sum.splits)

lemma rebuild_values:
  "members_value (snd (rebuildFromHistory st)) = rebuild_members (eventHistory st)"
  "plants_value (snd (rebuildFromHistory st))
     = (case rebuild_plants (eventHistory st) of Inl error \<Rightarrow> plants_value st | Inr m \<Rightarrow> m)"
  "messages_value (snd (rebuildFromHistory st))
     = (case rebuild_plants (eventHistory st) of
          Inl error \<Rightarrow> messages_value st
        | Inr m \<Rightarrow> rebuild_messages (eventHistory st))"
  by (simp_all add: rebuildFromHistory_def Let_def split: sum.splits)

lemma append_begin_fst: "fst (append_begin ev st) = with_sequenceNumber ev (Suc (length (eventHistory st)))"
  by (simp add: append_begin_def Let_def)

lemma append_begin_core:
  "eventHistory (snd (append_begin ev st))
     = eventHistory st @ [with_sequenceNumber ev (Suc (length (eventHistory st)))]"
  "disk (snd (append_begin ev st)) = disk st"
  "in_flight (snd (append_begin ev st))
     = map (\<lambda>w. w\<lparr>overlapped := True\<rparr>) (in_flight st)
       @ [\<lparr>document = eventHistory st @ [with_sequenceNumber ev (Suc (length (eventHistory st)))],
           overlapped = (in_flight st \<noteq> [])\<rparr>]"
  "console_errors (snd (append_begin ev st)) = console_errors st"
  "failing (snd (append_begin ev st)) = failing st"
  "listening (snd (append_begin ev st)) = listening st"
  by (simp_all add: append_begin_def Let_def persist_begin_def)

lemma append_fst:
  "fst (append result ev st) = Inr (with_sequenceNumber ev (Suc (length (eventHistory st))))"
  by (simp add: append_def Let_def split_beta append_begin_fst)

lemma persist_end_keeps [simp]:
  "eventHistory (persist_end k result st) = eventHistory st"
  "wire (persist_end k result st) = wire st"
  "sseClients (persist_end k result st) = sseClients st"
  "failing (persist_end k result st) = failing st"
  "listening (persist_end k result st) = listening st"
  "members_scan (persist_end k result st) = members_scan st"
  "plants_scan (persist_end k result st) = plants_scan st"
  "messages_scan (persist_end k result st) = messages_scan st"
  "members_value (persist_end k result st) = members_value st"
  "plants_value (persist_end k result st) = plants_value st"
  "messages_value (persist_end k result st) = messages_value st"
  by (simp_all add: persist_end_def Let_def writeFile_settle_def split: write_result.splits)

lemma persist_end_disk:
  "k < length (in_flight st) \<Longrightarrow>
   disk (persist_end k result st)
     = (case result of
          Write_succeeds torn \<Rightarrow>
            (if torn \<and> overlapped (in_flight st ! k) then None
             else Some (document (in_flight st ! k)))
        | Write_fails cut_short \<Rightarrow> (if cut_short then None else disk st))"
  by (simp add: persist_end_def Let_def writeFile_settle_def split: write_result.splits)

lemma persist_end_console_errors:
  "k < length (in_flight st) \<Longrightarrow>
   console_errors (persist_end k result st)
     = (case result of Write_succeeds torn \<Rightarrow> console_errors st
        | Write_fails cut_short \<Rightarrow> Suc (console_errors st))"
  by (simp add: persist_end_def Let_def writeFile_settle_def split: write_result.splits)

lemma persist_end_in_flight:
  "k < length (in_flight st) \<Longrightarrow>
   in_flight (persist_end k result st) = take k (in_flight st) @ drop (Suc k) (in_flight st)"
  by (simp add: persist_end_def Let_def writeFile_settle_def split: write_result.splits)

lemma append_history:
  "eventHistory (snd (append result ev st))
     = eventHistory st @ [with_sequenceNumber ev (Suc (length (eventHistory st)))]"
  by (simp add: append_def Let_def split_beta append_begin_core)

lemma append_disk:
  "disk (snd (append result ev st))
     = (case result of
          Write_succeeds torn \<Rightarrow>
            (if torn \<and> in_flight st \<noteq> [] then None
             else Some (eventHistory st
                    @ [with_sequenceNumber ev (Suc (length (eventHistory st)))]))
        | Write_fails cut_short \<Rightarrow> (if cut_short then None else disk st))"
  by (simp add: append_def Let_def split_beta append_begin_core persist_end_disk nth_append
        split: write_result.splits)

lemma append_in_flight:
  "in_flight (snd (append result ev st)) = map (\<lambda>w. w\<lparr>overlapped := True\<rparr>) (in_flight st)"
  by (simp add: append_def Let_def split_beta append_begin_core persist_end_in_flight)

lemma append_console_errors:
  "console_errors (snd (append result ev st))
     = (case result of Write_succeeds torn \<Rightarrow> console_errors st
        | Write_fails cut_short \<Rightarrow> Suc (console_errors st))"
  by (simp add: append_def Let_def split_beta append_begin_core persist_end_console_errors
        split: write_result.splits)

lemma append_wire: "wire (snd (append result ev st)) = wire (snd (append_begin ev st))"
  by (simp add: append_def Let_def split_beta)

section \<open>What one client receives\<close>

lemma filter_eq_distinct: "distinct cs \<Longrightarrow> res \<in> set cs \<Longrightarrow> filter (\<lambda>c. c = res) cs = [res]"
  by (induction cs) (auto simp: filter_empty_conv)

lemma broadcast_received_live:
  assumes "distinct (sseClients st)" "res \<in> set (sseClients st)" "res \<notin> set (failing st)"
  shows "received res (broadcastToSSEClients d st) = received res st @ [d]"
proof -
  have "filter (\<lambda>c. c = res \<and> c \<notin> set (failing st)) (sseClients st)
        = filter (\<lambda>c. c = res) (sseClients st)"
    using assms(3) by (intro filter_cong) auto
  then show ?thesis
    using assms by (simp add: broadcast_received filter_eq_distinct)
qed

lemma broadcast_live_stays:
  assumes "distinct (sseClients st)" "res \<in> set (sseClients st)" "res \<notin> set (failing st)"
  shows "distinct (sseClients (broadcastToSSEClients d st))"
    and "res \<in> set (sseClients (broadcastToSSEClients d st))"
  using assms by (simp_all add: broadcast_sseClients)

lemma received_update [simp]:
  "received res (st\<lparr>members_value := m\<rparr>) = received res st"
  "received res (st\<lparr>plants_value := m\<rparr>) = received res st"
  "received res (st\<lparr>messages_value := m\<rparr>) = received res st"
  "received res (st\<lparr>members_scan := m\<rparr>) = received res st"
  "received res (st\<lparr>plants_scan := m\<rparr>) = received res st"
  "received res (st\<lparr>messages_scan := m\<rparr>) = received res st"
  "received res (st\<lparr>eventHistory := h\<rparr>) = received res st"
  "received res (st\<lparr>in_flight := w\<rparr>) = received res st"
  by (simp_all add: received_def)

lemma members_pipeline_live:
  assumes "distinct (sseClients st)" "res \<in> set (sseClients st)" "res \<notin> set (failing st)"
  shows "received res (members_pipeline ev st)
           = received res st @ (if members_filter ev
               then [Members_updated (map_values (members_reducer (members_scan st) ev))] else [])"
    and "distinct (sseClients (members_pipeline ev st))"
    and "res \<in> set (sseClients (members_pipeline ev st))"
  using assms
  by (simp_all add: members_pipeline_def members_next_def Let_def broadcast_received_live
        broadcast_sseClients)

lemma plants_pipeline_live:
  assumes "distinct (sseClients st)" "res \<in> set (sseClients st)" "res \<notin> set (failing st)"
  shows "received res (plants_pipeline ev st)
           = received res st @ (if plants_filter ev
               then [Plants_updated (map_values (plants_reducer (plants_scan st) ev))] else [])"
    and "distinct (sseClients (plants_pipeline ev st))"
    and "res \<in> set (sseClients (plants_pipeline ev st))"
  using assms
  by (simp_all add: plants_pipeline_def plants_next_def Let_def broadcast_received_live
        broadcast_sseClients)

lemma messages_pipeline_live:
  assumes "distinct (sseClients st)" "res \<in> set (sseClients st)" "res \<notin> set (failing st)"
  shows "received res (messages_pipeline ev st)
           = received res st @ (if messages_filter ev
               then [Messages_updated (map_values (messages_reducer (messages_scan st) ev))] else [])"
    and "distinct (sseClients (messages_pipeline ev st))"
    and "res \<in> set (sseClients (messages_pipeline ev st))"
  using assms
  by (simp_all add: messages_pipeline_def messages_next_def Let_def broadcast_received_live
        broadcast_sseClients)

lemma pipeline_scans [simp]:
  "plants_scan (members_pipeline ev st) = plants_scan st"
  "messages_scan (members_pipeline ev st) = messages_scan st"
  "messages_scan (plants_pipeline ev st) = messages_scan st"
  by (simp_all add: members_pipeline_def plants_pipeline_def Let_def)

lemma events_next_live:
  assumes "distinct (sseClients st)" "res \<in> set (sseClients st)" "res \<notin> set (failing st)"
  shows "received res (events_next ev st)
           = received res st
             @ (if members_filter ev
                then [Members_updated (map_values (members_reducer (members_scan st) ev))] else [])
             @ (if plants_filter ev
                then [Plants_updated (map_values (plants_reducer (plants_scan st) ev))] else [])
             @ (if messages_filter ev
                then [Messages_updated (map_values (messages_reducer (messages_scan st) ev))] else [])
             @ [Event_msg ev]"
    and "distinct (sseClients (events_next ev st))"
    and "res \<in> set (sseClients (events_next ev st))"
proof -
  let ?s1 = "members_pipeline ev st"
  let ?s2 = "plants_pipeline ev ?s1"
  let ?s3 = "messages_pipeline ev ?s2"
  note a1 = members_pipeline_live [OF assms, of ev]
  have f1: "res \<notin> set (failing ?s1)" using assms(3) by simp
  note a2 = plants_pipeline_live [OF a1(2) a1(3) f1, of ev]
  have f2: "res \<notin> set (failing ?s2)" using assms(3) by simp
  note a3 = messages_pipeline_live [OF a2(2) a2(3) f2, of ev]
  have f3: "res \<notin> set (failing ?s3)" using assms(3) by simp
  have "received res (events_next ev st) = received res ?s3 @ [Event_msg ev]"
    unfolding events_next_def by (rule broadcast_received_live [OF a3(2) a3(3) f3])
  then show "received res (events_next ev st)
           = received res st
             @ (if members_filter ev
                then [Members_updated (map_values (members_reducer (members_scan st) ev))] else [])
             @ (if plants_filter ev
                then [Plants_updated (map_values (plants_reducer (plants_scan st) ev))] else [])
             @ (if messages_filter ev
                then [Messages_updated (map_values (messages_reducer (messages_scan st) ev))] else [])
             @ [Event_msg ev]"
    by (simp only: a3(1) a2(1) a1(1) pipeline_scans append_assoc)
  show "distinct (sseClients (events_next ev st))"
    unfolding events_next_def by (rule broadcast_live_stays(1) [OF a3(2) a3(3) f3])
  show "res \<in> set (sseClients (events_next ev st))"
    unfolding events_next_def by (rule broadcast_live_stays(2) [OF a3(2) a3(3) f3])
qed

section \<open>Invariants of a running server\<close>

lemma well_numbered_Nil [simp]: "well_numbered []"
  by (simp add: well_numbered_def)

lemma well_numbered_snoc:
  "well_numbered (events @ [e]) \<longleftrightarrow> well_numbered events \<and> sequenceNumber e = Suc (length events)"
  by (auto simp: well_numbered_def)

lemma sequenceNumber_with [simp]: "sequenceNumber (with_sequenceNumber ev n) = n"
  by (simp add: with_sequenceNumber_def)

lemma event_type_with [simp]: "event_type (with_sequenceNumber ev n) = event_type ev"
  by (simp add: with_sequenceNumber_def)

lemma store_ok_append_begin: "store_ok st \<Longrightarrow> store_ok (snd (append_begin ev st))"
  by (simp add: store_ok_def append_begin_core well_numbered_snoc list_all_iff)

lemma store_ok_persist_end: "store_ok st \<Longrightarrow> store_ok (persist_end k result st)"
proof -
  assume ok: "store_ok st"
  then have all: "\<forall>w \<in> set (in_flight st). well_numbered (document w)"
    by (simp add: store_ok_def list_all_iff)
  have rest: "list_all (\<lambda>w. well_numbered (document w))
                (take k (in_flight st) @ drop (Suc k) (in_flight st))"
    using all by (auto simp: list_all_iff dest: in_set_takeD in_set_dropD)
  show ?thesis
  proof (cases "k < length (in_flight st)")
    case True
    then have "well_numbered (document (in_flight st ! k))" using all by simp
    with ok rest True show ?thesis
      by (simp add: store_ok_def persist_end_disk persist_end_in_flight
            split: write_result.splits)
  next
    case False
    with ok show ?thesis by (simp add: persist_end_def)
  qed
qed

lemma events_route_core [simp]:
  "eventHistory (snd (events_route res st)) = eventHistory st"
  "disk (snd (events_route res st)) = disk st"
  "in_flight (snd (events_route res st)) = in_flight st"
  "failing (snd (events_route res st)) = failing st"
  "listening (snd (events_route res st)) = listening st"
  by (simp_all add: events_route_def client_write_def Let_def)

lemma events_route_sseClients:
  "sseClients (snd (events_route res st))
     = (if res \<in> set (sseClients st) then sseClients st else sseClients st @ [res])"
  by (simp add: events_route_def client_write_def Let_def)

lemma rebuild_plants_Nil: "rebuild_plants [] = Inr []"
  by (simp add: rebuild_plants_def omit_def fromPairs_def Object_entries_def new_Map_def)

lemma rebuild_members_Nil: "rebuild_members [] = []"
  by (simp add: rebuild_members_def fromPairs_def Object_entries_def new_Map_def)

lemma rebuild_messages_Nil: "rebuild_messages [] = []"
  by (simp add: rebuild_messages_def fromPairs_def Object_entries_def new_Map_def)

lemma new_server_eq:
  "new_PlantExchangeServer file =
     \<lparr> eventHistory = [], disk = file, in_flight = [], console_errors = 0,
       listening = False,
       members_scan = [], plants_scan = [], messages_scan = [],
       members_value = [], plants_value = [], messages_value = [],
       sseClients = [], failing = [], wire = [] \<rparr>"
  by (simp add: new_PlantExchangeServer_def rebuildFromHistory_def Let_def members_next_def
      plants_next_def messages_next_def broadcastToSSEClients_def rebuild_members_Nil
      rebuild_plants_Nil rebuild_messages_Nil map_values_def)

lemma rebuild_sseClients:
  "sseClients (snd (rebuildFromHistory st))
     = filter (\<lambda>c. c \<notin> set (failing st)) (sseClients st)"
  by (simp add: rebuildFromHistory_def Let_def split: sum.splits)

lemma start_core [simp]:
  "eventHistory (snd (start st)) = (case disk st of Some events \<Rightarrow> events | None \<Rightarrow> [])"
  "disk (snd (start st)) = disk st"
  "in_flight (snd (start st)) = in_flight st"
  "failing (snd (start st)) = failing st"
  "sseClients (snd (start st)) = filter (\<lambda>c. c \<notin> set (failing st)) (sseClients st)"
  by (simp_all add: start_def initialize_def split_beta rebuild_sseClients
        split: option.splits sum.splits)

lemma bootstrap_core [simp]:
  "eventHistory (bootstrap file) = (case file of Some events \<Rightarrow> events | None \<Rightarrow> [])"
  "disk (bootstrap file) = file"
  "in_flight (bootstrap file) = []"
  "failing (bootstrap file) = []"
  "sseClients (bootstrap file) = []"
  by (simp_all add: bootstrap_def split_beta new_server_eq split: sum.splits)

lemma store_ok_restart: "store_ok st \<Longrightarrow> store_ok (bootstrap (disk st))"
  by (auto simp: store_ok_def split: option.splits)

lemma store_ok_step: "store_ok st \<Longrightarrow> store_ok (step a st)"
proof (cases a)
  case (Append_begin ev)
  assume "store_ok st"
  then show ?thesis using Append_begin by (simp add: store_ok_append_begin)
next
  case (Write_settles k result)
  assume "store_ok st"
  then show ?thesis using Write_settles by (simp add: store_ok_persist_end)
next
  case (Sse_connect res)
  assume "store_ok st"
  then show ?thesis using Sse_connect by (simp add: store_ok_def)
next
  case (Sse_close res)
  assume "store_ok st"
  then show ?thesis using Sse_close by (simp add: store_ok_def on_close_def)
next
  case (Response_breaks res)
  assume "store_ok st"
  then show ?thesis using Response_breaks by (simp add: store_ok_def)
next
  case Restart
  assume "store_ok st"
  then show ?thesis using Restart by (simp add: store_ok_restart)
qed

lemma store_ok_run: "store_ok st \<Longrightarrow> store_ok (run acts st)"
  unfolding run_def by (induction acts arbitrary: st) (simp_all add: store_ok_step)

lemma first_boot_eq:
  "first_boot =
     \<lparr> eventHistory = [], disk = None, in_flight = [], console_errors = 0,
       listening = True,
       members_scan = [], plants_scan = [], messages_scan = [],
       members_value = [], plants_value = [], messages_value = [],
       sseClients = [], failing = [], wire = [] \<rparr>"
  by (simp add: first_boot_def bootstrap_def new_server_eq start_def initialize_def
      rebuildFromHistory_def Let_def members_next_def plants_next_def messages_next_def
      broadcastToSSEClients_def rebuild_members_Nil rebuild_plants_Nil rebuild_messages_Nil
      map_values_def)

lemma store_ok_first_boot: "store_ok first_boot"
  by (simp add: first_boot_eq store_ok_def)

lemma events_next_sseClients:
  "sseClients (events_next ev st) = filter (\<lambda>c. c \<notin> set (failing st)) (sseClients st)"
  by (simp add: events_next_def broadcast_sseClients members_pipeline_def plants_pipeline_def
      messages_pipeline_def Let_def)

lemma distinct_step: "distinct (sseClients st) \<Longrightarrow> distinct (sseClients (step a st))"
  by (cases a)
     (simp_all add: append_begin_def Let_def persist_begin_def events_next_sseClients
        events_route_sseClients on_close_def distinct_removeAll)

lemma distinct_run: "distinct (sseClients st) \<Longrightarrow> distinct (sseClients (run acts st))"
  unfolding run_def by (induction acts arbitrary: st) (simp_all add: distinct_step)

lemma distinct_reachable: "distinct (sseClients (run acts first_boot))"
  by (rule distinct_run) (simp add: first_boot_eq)

section \<open>Sequence numbers\<close>

text \<open>
  Claim C5.  Start from the first boot and let anything happen, in any order:
  appends that run up to their \<open>await\<close> while earlier writes are still in
  flight, writes that settle in any order, with success or failure, leaving
  their document or a file that cannot be read, clients that come and go,
  restarts on the file the earlier processes left.  The
  sequence numbers in the log are then exactly 1, 2, ..., n in this order (so
  they increase strictly, have no gap and no duplicate, and the event at
  index i carries i + 1), and the next append assigns n + 1 to the event it
  returns and puts it at the end of the log.
\<close>

theorem sequence_numbers_gapless_from_one:
  "map sequenceNumber (eventHistory (run acts first_boot))
     = [1..<Suc (length (eventHistory (run acts first_boot)))]
   \<and> sorted_wrt (<) (map sequenceNumber (eventHistory (run acts first_boot)))
   \<and> distinct (map sequenceNumber (eventHistory (run acts first_boot)))
   \<and> sequenceNumber (fst (append_begin ev (run acts first_boot)))
     = Suc (length (eventHistory (run acts first_boot)))
   \<and> eventHistory (snd (append_begin ev (run acts first_boot)))
     = eventHistory (run acts first_boot) @ [fst (append_begin ev (run acts first_boot))]"
proof -
  have "store_ok (run acts first_boot)"
    by (rule store_ok_run [OF store_ok_first_boot])
  then have "well_numbered (eventHistory (run acts first_boot))"
    by (simp add: store_ok_def)
  then show ?thesis
    by (simp add: well_numbered_def append_begin_fst append_begin_core del: upt_Suc)
qed

section \<open>Evaluating the model on the sample data\<close>

lemma two_plants_eq:
  "two_plants =
     \<lparr> eventHistory = [with_sequenceNumber ev_P1 1, with_sequenceNumber ev_P2 2],
       disk = Some [with_sequenceNumber ev_P1 1, with_sequenceNumber ev_P2 2],
       in_flight = [], console_errors = 0, listening = True,
       members_scan = [], plants_scan = [(Str ''P1'', plant_P1), (Str ''P2'', plant_P2)],
       messages_scan = [],
       members_value = [], plants_value = [(Str ''P1'', plant_P1), (Str ''P2'', plant_P2)],
       messages_value = [],
       sseClients = [], failing = [], wire = [] \<rparr>"
  by code_simp

lemma two_plants_restarted_eq:
  "two_plants_restarted =
     \<lparr> eventHistory = [with_sequenceNumber ev_P1 1, with_sequenceNumber ev_P2 2],
       disk = Some [with_sequenceNumber ev_P1 1, with_sequenceNumber ev_P2 2],
       in_flight = [], console_errors = 0, listening = True,
       members_scan = [], plants_scan = [], messages_scan = [],
       members_value = [], plants_value = [(Str ''P1'', plant_P1), (Str ''P2'', plant_P2)],
       messages_value = [],
       sseClients = [], failing = [], wire = [] \<rparr>"
  by code_simp

lemma five_events_one_restart_eq:
  "five_events_one_restart =
     \<lparr> eventHistory = [with_sequenceNumber ev_M1 1, with_sequenceNumber ev_P1 2,
          with_sequenceNumber ev_P2 3, with_sequenceNumber ev_remove_P1 4,
          with_sequenceNumber ev_G1 5],
       disk = Some [with_sequenceNumber ev_M1 1, with_sequenceNumber ev_P1 2,
          with_sequenceNumber ev_P2 3, with_sequenceNumber ev_remove_P1 4,
          with_sequenceNumber ev_G1 5],
       in_flight = [], console_errors = 0, listening = True,
       members_scan = [], plants_scan = [], messages_scan = [(Str ''G1'', message_G1)],
       members_value = [(Str ''M1'', member_M1)], plants_value = [],
       messages_value = [(Str ''G1'', message_G1)],
       sseClients = [], failing = [], wire = [] \<rparr>"
  by code_simp

lemma removed_hasOwnProperty_eq:
  "removed_hasOwnProperty =
     \<lparr> eventHistory = [with_sequenceNumber ev_P1 1,
          with_sequenceNumber ev_remove_hasOwnProperty 2],
       disk = Some [with_sequenceNumber ev_P1 1,
          with_sequenceNumber ev_remove_hasOwnProperty 2],
       in_flight = [], console_errors = 1, listening = False,
       members_scan = [], plants_scan = [], messages_scan = [],
       members_value = [], plants_value = [], messages_value = [],
       sseClients = [], failing = [], wire = [] \<rparr>"
  by code_simp


section \<open>Deleting a plant\<close>

lemma map_delete_absent: "k \<notin> set (map_keys m) \<Longrightarrow> map_delete k m = m"
  by (induction m) (auto simp: map_delete_def map_keys_def)

lemma plants_filter_removed: "event_type ev = PLANT_REMOVED \<Longrightarrow> plants_filter ev"
  by (simp add: plants_filter_def)

lemma pipeline_plants_value [simp]:
  "plants_value (members_pipeline ev st) = plants_value st"
  "plants_value (messages_pipeline ev st) = plants_value st"
  by (simp_all add: members_pipeline_def messages_pipeline_def Let_def)

lemma events_next_plants_value:
  "plants_value (events_next ev st)
     = (if plants_filter ev then plants_reducer (plants_scan st) ev else plants_value st)"
  by (simp add: events_next_def plants_pipeline_def Let_def)

text \<open>
  The reducer of the plants pipeline does what a deletion should do: for a
  plant-removed event it returns the map it was given when the id is not a
  key of it, and in every case the entries whose key is not this id, in
  their order.  What the pipeline publishes, though, is the reducer applied
  to the accumulator of its \<open>scan\<close>, not to the value \<open>plants$\<close> holds.
\<close>

lemma plants_reducer_removed:
  assumes "event_type ev = PLANT_REMOVED"
  shows "payload_plantId (event_payload ev) \<notin> set (map_keys plants)
            \<Longrightarrow> plants_reducer plants ev = plants"
    and "plants_reducer plants ev
            = filter (\<lambda>entry. fst entry \<noteq> payload_plantId (event_payload ev)) plants"
    and "plants_value (events_next ev st) = plants_reducer (plants_scan st) ev"
  using assms plants_filter_removed [OF assms]
  by (simp_all add: plants_reducer_def map_delete_absent events_next_plants_value)
     (simp add: map_delete_def)

text \<open>
  In a process that started with no history and has not been restarted, each
  subject holds what the \<open>scan\<close> of its pipeline has accumulated.
\<close>

lemma in_sync_step:
  assumes "a \<noteq> Restart"
    and "members_value st = members_scan st \<and> plants_value st = plants_scan st
         \<and> messages_value st = messages_scan st"
  shows "members_value (step a st) = members_scan (step a st)
       \<and> plants_value (step a st) = plants_scan (step a st)
       \<and> messages_value (step a st) = messages_scan (step a st)"
  using assms
  by (cases a)
     (simp_all add: append_begin_def persist_begin_def events_next_def members_pipeline_def
        plants_pipeline_def messages_pipeline_def events_route_def client_write_def
        on_close_def Let_def)

lemma in_sync_run:
  assumes "Restart \<notin> set acts"
    and "members_value st = members_scan st \<and> plants_value st = plants_scan st
         \<and> messages_value st = messages_scan st"
  shows "members_value (run acts st) = members_scan (run acts st)
       \<and> plants_value (run acts st) = plants_scan (run acts st)
       \<and> messages_value (run acts st) = messages_scan (run acts st)"
  using assms unfolding run_def
proof (induction acts arbitrary: st)
  case Nil
  then show ?case by simp
next
  case (Cons a acts)
  from Cons.prems have "a \<noteq> Restart" and rest: "Restart \<notin> set acts" by auto
  from in_sync_step [OF this(1) Cons.prems(2)] Cons.IH [OF rest] show ?case by simp
qed

lemma in_sync_first_boot:
  "Restart \<notin> set acts \<Longrightarrow>
   members_value (run acts first_boot) = members_scan (run acts first_boot)
   \<and> plants_value (run acts first_boot) = plants_scan (run acts first_boot)
   \<and> messages_value (run acts first_boot) = messages_scan (run acts first_boot)"
  by (rule in_sync_run) (simp_all add: first_boot_eq)

text \<open>
  Claim C7, at an input where the code departs from it.  Two plants, P1 and
  P2, are listed and written to the file, and the process is restarted: the
  plants projection is rebuilt to P1 and P2, and the accumulator of the
  \<open>scan\<close> is the empty map of its seed.  A plant-removed event for P9, an id
  that is not in the projection, then empties the projection instead of
  leaving it as it was; and a plant-removed event for P1 removes P2 as well.
\<close>

theorem plant_removed_after_restart_empties_projection:
  "listening two_plants_restarted
   \<and> map_keys (plants_value two_plants_restarted) = [Str ''P1'', Str ''P2'']
   \<and> plants_scan two_plants_restarted = []
   \<and> event_type (fst (append_begin ev_remove_P9 two_plants_restarted)) = PLANT_REMOVED
   \<and> payload_plantId (event_payload (fst (append_begin ev_remove_P9 two_plants_restarted)))
       = Str ''P9''
   \<and> plants_value (snd (append_begin ev_remove_P9 two_plants_restarted)) = []
   \<and> payload_plantId (event_payload (fst (append_begin ev_remove_P1 two_plants_restarted)))
       = Str ''P1''
   \<and> plants_value (snd (append_begin ev_remove_P1 two_plants_restarted)) = []"
  by code_simp

section \<open>Rebuilding\<close>

text \<open>
  Whatever the history, a second \<open>rebuildFromHistory\<close> right after the first
  ends the same way and leaves the same snapshot; the history itself is not
  changed by rebuilding.
\<close>

lemma rebuildFromHistory_twice:
  "fst (rebuildFromHistory (snd (rebuildFromHistory st))) = fst (rebuildFromHistory st)"
  "getCurrentState (snd (rebuildFromHistory (snd (rebuildFromHistory st))))
     = getCurrentState (snd (rebuildFromHistory st))"
  "eventHistory (snd (rebuildFromHistory st)) = eventHistory st"
  by (simp_all add: rebuild_fst rebuild_values getCurrentState_def split: sum.splits)

text \<open>
  A call that returns normally has replaced all three values by what the
  history alone gives; a call that throws has replaced the members only.
\<close>

lemma rebuildFromHistory_replaces:
  "members_value (snd (rebuildFromHistory st)) = rebuild_members (eventHistory st)"
  "fst (rebuildFromHistory st) = Inr () \<Longrightarrow>
     rebuild_plants (eventHistory st) = Inr (plants_value (snd (rebuildFromHistory st)))"
  "fst (rebuildFromHistory st) = Inr () \<Longrightarrow>
     messages_value (snd (rebuildFromHistory st)) = rebuild_messages (eventHistory st)"
  "fst (rebuildFromHistory st) \<noteq> Inr () \<Longrightarrow>
     plants_value (snd (rebuildFromHistory st)) = plants_value st
     \<and> messages_value (snd (rebuildFromHistory st)) = messages_value st"
  by (simp_all add: rebuild_fst rebuild_values split: sum.splits)


section \<open>A client connects\<close>

text \<open>
  The handler of \<open>/events\<close> itself writes the initial state to a client whose
  response accepts the write, and the message holds the values the three
  subjects have at that moment.
\<close>

lemma initial_state_holds_current_values:
  assumes "res \<notin> set (failing st)"
  shows "fst (events_route res st) = Inr ()"
    and "res \<in> set (sseClients (snd (events_route res st)))"
    and "received res (snd (events_route res st))
           = received res st @ [Initial_state (getCurrentState st)]"
  using assms
  by (simp_all add: events_route_def client_write_def Let_def getCurrentState_def received_def)

text \<open>
  Claim C9, at an input where the code departs from it.  M1 is registered
  and P1 and P2 are listed; the process is restarted; P1 is removed and a
  message is sent.  A client that connects now is sent an initial state with
  no plant at all, while the five events of the log, folded, leave P2 (as a
  rebuild from the same log shows).
\<close>

theorem late_subscriber_after_restart_misses_plant:
  "map sequenceNumber (eventHistory five_events_one_restart) = [1, 2, 3, 4, 5]
   \<and> listening five_events_one_restart
   \<and> fst (events_route 0 five_events_one_restart) = Inr ()
   \<and> received 0 (snd (events_route 0 five_events_one_restart))
       = [Initial_state \<lparr> state_members = [member_M1], state_plants = [],
                          state_messages = [message_G1] \<rparr>]
   \<and> fst (rebuildFromHistory five_events_one_restart) = Inr ()
   \<and> getCurrentState (snd (rebuildFromHistory five_events_one_restart))
       = \<lparr> state_members = [member_M1], state_plants = [plant_P2],
           state_messages = [message_G1] \<rparr>"
  by code_simp

section \<open>Copies of the history\<close>

lemma history_of_append_ref:
  "eventHistory_ref h < length (cells h) \<Longrightarrow>
   history_of (snd (append_ref ev h))
     = history_of h @ [with_sequenceNumber ev (Suc (length (history_of h)))]"
  by (simp add: append_ref_def array_push_def array_mutate_def history_of_def Let_def)

lemma append_ref_frame:
  "a \<noteq> eventHistory_ref h \<Longrightarrow> cells (snd (append_ref ev h)) ! a = cells h ! a"
  "eventHistory_ref (snd (append_ref ev h)) = eventHistory_ref h"
  "length (cells (snd (append_ref ev h))) = length (cells h)"
  by (simp_all add: append_ref_def array_push_def array_mutate_def Let_def)

lemma fold_append_ref_frame:
  "a \<noteq> eventHistory_ref h \<Longrightarrow>
   cells (fold (\<lambda>ev s. snd (append_ref ev s)) evs h) ! a = cells h ! a
   \<and> eventHistory_ref (fold (\<lambda>ev s. snd (append_ref ev s)) evs h) = eventHistory_ref h"
  by (induction evs arbitrary: h) (simp_all add: append_ref_frame)

text \<open>The array store and the server record describe the same history.\<close>

lemma array_store_matches_server:
  assumes "history_of h = eventHistory st" and "eventHistory_ref h < length (cells h)"
  shows "fst (append_ref ev h) = fst (append_begin ev st)"
    and "history_of (snd (append_ref ev h)) = eventHistory (snd (append_begin ev st))"
    and "cells (snd (getEvents_ref h)) ! fst (getEvents_ref h) = getEvents st"
  using assms
  by (simp_all add: history_of_append_ref append_begin_core append_begin_fst getEvents_def
        getEvents_ref_def)
     (simp_all add: append_ref_def history_of_def Let_def)

text \<open>
  Claim C10.  \<open>getEvents\<close> returns an array that did not exist before the call
  (so two calls return two arrays, and neither is the array of the store),
  holding the events of the history at the time of the call.  The call does
  not change the history; no mutation of the returned array changes the
  history; and appends made after the call do not change the returned
  array.
\<close>

theorem getEvents_returns_fresh_copy:
  assumes "eventHistory_ref h < length (cells h)"
  shows "cells (snd (getEvents_ref h)) ! fst (getEvents_ref h) = history_of h
       \<and> fst (getEvents_ref h) \<noteq> eventHistory_ref h
       \<and> length (cells h) \<le> fst (getEvents_ref h)
       \<and> fst (getEvents_ref (snd (getEvents_ref h))) \<noteq> fst (getEvents_ref h)
       \<and> history_of (snd (getEvents_ref h)) = history_of h
       \<and> history_of (array_mutate (fst (getEvents_ref h)) f (snd (getEvents_ref h)))
           = history_of h
       \<and> cells (fold (\<lambda>ev s. snd (append_ref ev s)) evs (snd (getEvents_ref h)))
           ! fst (getEvents_ref h) = history_of h"
proof -
  let ?a = "fst (getEvents_ref h)" and ?h1 = "snd (getEvents_ref h)"
  have a: "?a = length (cells h)" by (simp add: getEvents_ref_def)
  have ref: "eventHistory_ref ?h1 = eventHistory_ref h" by (simp add: getEvents_ref_def)
  have ne: "?a \<noteq> eventHistory_ref ?h1" using assms by (simp add: getEvents_ref_def)
  have copy: "cells ?h1 ! ?a = history_of h"
    by (simp add: getEvents_ref_def history_of_def)
  have same: "history_of ?h1 = history_of h"
    using assms by (simp add: getEvents_ref_def history_of_def nth_append)
  have mut: "history_of (array_mutate ?a f ?h1) = history_of h"
    using assms by (simp add: getEvents_ref_def history_of_def array_mutate_def nth_append)
  have later: "cells (fold (\<lambda>ev s. snd (append_ref ev s)) evs ?h1) ! ?a = history_of h"
    using fold_append_ref_frame [OF ne, of evs] copy by simp
  have again: "fst (getEvents_ref ?h1) \<noteq> ?a"
    by (simp add: getEvents_ref_def)
  show ?thesis
    using copy ne ref a same mut later again by simp
qed

text \<open>
  A store with one event: the copy is emptied by its caller and the history
  keeps its event; an event appended afterwards is in the history and not in
  the copy.
\<close>

theorem getEvents_returns_fresh_copy_witness:
  "eventHistory_ref two_arrays < length (cells two_arrays)
   \<and> history_of two_arrays = [with_sequenceNumber ev_M1 1]
   \<and> fst (getEvents_ref two_arrays) = 1
   \<and> history_of (array_mutate 1 (\<lambda>xs. []) (snd (getEvents_ref two_arrays)))
       = [with_sequenceNumber ev_M1 1]
   \<and> cells (fold (\<lambda>ev s. snd (append_ref ev s)) [ev_P1] (snd (getEvents_ref two_arrays))) ! 1
       = [with_sequenceNumber ev_M1 1]
   \<and> history_of (fold (\<lambda>ev s. snd (append_ref ev s)) [ev_P1] (snd (getEvents_ref two_arrays)))
       = [with_sequenceNumber ev_M1 1, with_sequenceNumber ev_P1 2]"
proof -
  have st: "two_arrays = \<lparr> cells = [[with_sequenceNumber ev_M1 1]], eventHistory_ref = 0 \<rparr>"
    by (simp add: two_arrays_def new_EventStore_def append_ref_def array_push_def
          array_mutate_def Let_def)
  have wf: "eventHistory_ref two_arrays < length (cells two_arrays)"
    by (simp add: st)
  have a: "fst (getEvents_ref two_arrays) = 1"
    by (simp add: st getEvents_ref_def)
  have h: "history_of two_arrays = [with_sequenceNumber ev_M1 1]"
    by (simp add: st history_of_def)
  have app: "history_of (fold (\<lambda>ev s. snd (append_ref ev s)) [ev_P1] (snd (getEvents_ref two_arrays)))
       = [with_sequenceNumber ev_M1 1, with_sequenceNumber ev_P1 2]"
    by (simp add: st getEvents_ref_def append_ref_def array_push_def array_mutate_def
          history_of_def Let_def numeral_2_eq_2)
  show ?thesis
    using getEvents_returns_fresh_copy [OF wf, of "\<lambda>xs. []" "[ev_P1]"] wf app
    by (simp add: a h)
qed



section \<open>Appending: notification, then the write\<close>

lemma one_client_eq:
  "one_client =
     \<lparr> eventHistory = [], disk = None, in_flight = [], console_errors = 0, listening = True,
       members_scan = [], plants_scan = [], messages_scan = [],
       members_value = [], plants_value = [], messages_value = [],
       sseClients = [0], failing = [],
       wire = [(0, Initial_state \<lparr>state_members = [], state_plants = [], state_messages = []\<rparr>)] \<rparr>"
  by code_simp

lemma append_begin_one_client:
  "snd (append_begin ev_M1 one_client) =
     \<lparr> eventHistory = [with_sequenceNumber ev_M1 1], disk = None,
       in_flight = [\<lparr>document = [with_sequenceNumber ev_M1 1], overlapped = False\<rparr>],
       console_errors = 0, listening = True,
       members_scan = [(Str ''M1'', member_M1)], plants_scan = [], messages_scan = [],
       members_value = [(Str ''M1'', member_M1)], plants_value = [], messages_value = [],
       sseClients = [0], failing = [],
       wire = [(0, Initial_state \<lparr>state_members = [], state_plants = [], state_messages = []\<rparr>),
               (0, Members_updated [member_M1]),
               (0, Event_msg (with_sequenceNumber ev_M1 1))] \<rparr>"
  by code_simp

text \<open>
  With one client connected, the call of \<open>append\<close> has written the event
  message to the client by the time it reaches its \<open>await\<close>, and the file
  has not been written yet.  When the write then fails, \<open>append\<close> returns the
  event all the same and there still is no file.
\<close>

theorem persistence_before_notification_counterexample:
  "(0, Event_msg (with_sequenceNumber ev_M1 1)) \<in> set (wire (snd (append_begin ev_M1 one_client)))
   \<and> disk (snd (append_begin ev_M1 one_client)) = None
   \<and> fst (append (Write_fails False) ev_M1 one_client) = Inr (with_sequenceNumber ev_M1 1)
   \<and> eventHistory (snd (append (Write_fails False) ev_M1 one_client))
       = [with_sequenceNumber ev_M1 1]
   \<and> disk (snd (append (Write_fails False) ev_M1 one_client)) = None"
  by (simp add: append_begin_one_client append_fst append_history append_disk)
     (simp add: one_client_eq)

text \<open>
  Two calls of \<open>append\<close> whose writes overlap: both writes succeed and leave
  their documents, the first one settling last.  The file then holds the
  first event only, while the log holds both.
\<close>

lemma overlapping_writes_can_leave_the_older_document:
  "disk (run [Append_begin ev_M1, Append_begin ev_M2,
              Write_settles 1 written, Write_settles 0 written] first_boot)
     = Some [with_sequenceNumber ev_M1 1]
   \<and> eventHistory (run [Append_begin ev_M1, Append_begin ev_M2,
              Write_settles 1 written, Write_settles 0 written] first_boot)
     = [with_sequenceNumber ev_M1 1, with_sequenceNumber ev_M2 2]
   \<and> disk (run [Append_begin ev_M1, Append_begin ev_M2,
              Write_settles 1 (Write_succeeds True), Write_settles 0 (Write_succeeds True)]
              first_boot)
     = None"
  by code_simp

text \<open>
  Claim C3, as the code has it.  Every call of \<open>append\<close> first numbers the
  event, pushes it and notifies the listeners: when it reaches its \<open>await\<close>
  the state is the one \<open>events$.next\<close> left, with the file untouched and one
  more write in flight, whose document is the full updated history; that
  write overlaps the writes that were in flight already.  When a write
  settles, whatever its result, nothing is sent to a client and the log does
  not change.  A call that nothing interrupts returns the numbered event
  once its write has settled, whatever the result.  A write that succeeds
  and overlapped no other write leaves its document in the file; so a call
  made while no write is in flight, and which nothing interrupts, returns
  with the full updated history in the file when its write succeeds.
\<close>

theorem append_notifies_then_writes:
  "snd (append_begin ev st)
     = (events_next (with_sequenceNumber ev (Suc (length (eventHistory st))))
         (st\<lparr>eventHistory := eventHistory st
                @ [with_sequenceNumber ev (Suc (length (eventHistory st)))]\<rparr>))
       \<lparr>in_flight := map (\<lambda>w. w\<lparr>overlapped := True\<rparr>) (in_flight st)
          @ [\<lparr>document = eventHistory st
                 @ [with_sequenceNumber ev (Suc (length (eventHistory st)))],
              overlapped = (in_flight st \<noteq> [])\<rparr>]\<rparr>
   \<and> disk (snd (append_begin ev st)) = disk st
   \<and> wire (persist_end k result st) = wire st
   \<and> eventHistory (persist_end k result st) = eventHistory st
   \<and> wire (snd (append result ev st)) = wire (snd (append_begin ev st))
   \<and> fst (append result ev st) = Inr (with_sequenceNumber ev (Suc (length (eventHistory st))))
   \<and> eventHistory (snd (append result ev st))
       = eventHistory st @ [with_sequenceNumber ev (Suc (length (eventHistory st)))]
   \<and> (k < length (in_flight st) \<longrightarrow> \<not> overlapped (in_flight st ! k)
        \<longrightarrow> disk (persist_end k (Write_succeeds torn) st) = Some (document (in_flight st ! k)))
   \<and> (in_flight st = []
        \<longrightarrow> disk (snd (append (Write_succeeds torn) ev st))
            = Some (eventHistory (snd (append (Write_succeeds torn) ev st))))"
proof -
  have started: "snd (append_begin ev st)
     = (events_next (with_sequenceNumber ev (Suc (length (eventHistory st))))
         (st\<lparr>eventHistory := eventHistory st
                @ [with_sequenceNumber ev (Suc (length (eventHistory st)))]\<rparr>))
       \<lparr>in_flight := map (\<lambda>w. w\<lparr>overlapped := True\<rparr>) (in_flight st)
          @ [\<lparr>document = eventHistory st
                 @ [with_sequenceNumber ev (Suc (length (eventHistory st)))],
              overlapped = (in_flight st \<noteq> [])\<rparr>]\<rparr>"
    by (simp add: append_begin_def Let_def persist_begin_def)
  have alone: "k < length (in_flight st) \<Longrightarrow> \<not> overlapped (in_flight st ! k)
        \<Longrightarrow> disk (persist_end k (Write_succeeds torn) st) = Some (document (in_flight st ! k))"
    by (simp add: persist_end_disk)
  have whole: "in_flight st = []
        \<Longrightarrow> disk (snd (append (Write_succeeds torn) ev st))
            = Some (eventHistory (snd (append (Write_succeeds torn) ev st)))"
    by (simp add: append_disk append_history)
  show ?thesis
    using started alone whole
    by (simp add: append_begin_core append_wire append_fst append_history)
qed

text \<open>
  One append has reached its \<open>await\<close> in a fresh process: its write overlaps
  no other, and when it succeeds the file holds the event.  The same holds
  for a whole call on the fresh process.
\<close>

theorem append_notifies_then_writes_witness:
  "0 < length (in_flight one_write_in_flight)
   \<and> \<not> overlapped (in_flight one_write_in_flight ! 0)
   \<and> disk one_write_in_flight = None
   \<and> disk (persist_end 0 (Write_succeeds True) one_write_in_flight)
       = Some [with_sequenceNumber ev_M1 1]
   \<and> in_flight first_boot = []
   \<and> disk (snd (append (Write_succeeds True) ev_M1 first_boot))
       = Some [with_sequenceNumber ev_M1 1]"
proof -
  have st: "one_write_in_flight =
     \<lparr> eventHistory = [with_sequenceNumber ev_M1 1], disk = None,
       in_flight = [\<lparr>document = [with_sequenceNumber ev_M1 1], overlapped = False\<rparr>],
       console_errors = 0, listening = True,
       members_scan = [(Str ''M1'', member_M1)], plants_scan = [], messages_scan = [],
       members_value = [(Str ''M1'', member_M1)], plants_value = [], messages_value = [],
       sseClients = [], failing = [], wire = [] \<rparr>"
    by code_simp
  have k: "0 < length (in_flight one_write_in_flight)"
    and a: "\<not> overlapped (in_flight one_write_in_flight ! 0)"
    by (simp_all add: st)
  have e: "in_flight first_boot = []" by (simp add: first_boot_eq)
  have h: "eventHistory (snd (append (Write_succeeds True) ev_M1 first_boot))
             = [with_sequenceNumber ev_M1 1]"
    by (simp add: append_history first_boot_eq)
  show ?thesis
    using append_notifies_then_writes [of ev_M1 one_write_in_flight 0 written True]
          append_notifies_then_writes [of ev_M1 first_boot 0 written True] k a e
    by (simp add: h) (simp add: st)
qed


section \<open>A failed write\<close>

text \<open>
  A registration whose write fails returns the event, exactly as the same
  registration does when the write succeeds; the error is counted by
  \<open>console.error\<close> and no file exists.
\<close>

theorem failed_write_counterexample:
  "fst (registerMember fx_fail ann first_boot)
     = Inr (with_sequenceNumber
         (createEvent ''E1'' ''t1'' MEMBER_REGISTERED
            (Member (createMember ''M1'' ''t1'' (Str ''Ann'') (Str ''ann@example.org'')
               (Str ''Oslo'') Undefined)) Undefined) 1)
   \<and> fst (registerMember fx_fail ann first_boot) = fst (registerMember fx_ok ann first_boot)
   \<and> disk (snd (registerMember fx_fail ann first_boot)) = None
   \<and> console_errors (snd (registerMember fx_fail ann first_boot)) = 1"
  by (simp add: registerMember_def Let_def append_fst append_disk append_console_errors
        fx_fail_def fx_ok_def ann_def)
     (simp add: first_boot_eq)

text \<open>
  Claim C4, as the code has it.  When the write fails, whatever it leaves in
  the file, \<open>append\<close> still resolves to the numbered event, the same value as
  when the write succeeds; the event is in the history and the clients were
  sent the same messages; the only trace of the failure is one more call of
  \<open>console.error\<close>.  Each of the five commands returns to its caller the same
  value whether its write fails or succeeds.
\<close>

theorem failed_write_is_logged_and_append_succeeds:
  "fst (append (Write_fails cut_short) ev st)
     = Inr (with_sequenceNumber ev (Suc (length (eventHistory st))))
   \<and> fst (append (Write_fails cut_short) ev st) = fst (append (Write_succeeds torn) ev st)
   \<and> eventHistory (snd (append (Write_fails cut_short) ev st))
       = eventHistory st @ [with_sequenceNumber ev (Suc (length (eventHistory st)))]
   \<and> wire (snd (append (Write_fails cut_short) ev st))
       = wire (snd (append (Write_succeeds torn) ev st))
   \<and> console_errors (snd (append (Write_fails cut_short) ev st)) = Suc (console_errors st)
   \<and> console_errors (snd (append (Write_succeeds torn) ev st)) = console_errors st
   \<and> fst (registerMember (fx\<lparr>write_outcome := Write_fails cut_short\<rparr>) memberData st)
       = fst (registerMember (fx\<lparr>write_outcome := Write_succeeds torn\<rparr>) memberData st)
   \<and> fst (offerPlant (fx\<lparr>write_outcome := Write_fails cut_short\<rparr>) plantData memberId st)
       = fst (offerPlant (fx\<lparr>write_outcome := Write_succeeds torn\<rparr>) plantData memberId st)
   \<and> fst (requestPlant (fx\<lparr>write_outcome := Write_fails cut_short\<rparr>) plantData memberId st)
       = fst (requestPlant (fx\<lparr>write_outcome := Write_succeeds torn\<rparr>) plantData memberId st)
   \<and> fst (sendMessage (fx\<lparr>write_outcome := Write_fails cut_short\<rparr>) messageData st)
       = fst (sendMessage (fx\<lparr>write_outcome := Write_succeeds torn\<rparr>) messageData st)
   \<and> fst (removePlant (fx\<lparr>write_outcome := Write_fails cut_short\<rparr>) plantId memberId st)
       = fst (removePlant (fx\<lparr>write_outcome := Write_succeeds torn\<rparr>) plantId memberId st)"
  by (simp add: append_fst append_history append_wire append_console_errors
        registerMember_def offerPlant_def requestPlant_def sendMessage_def removePlant_def
        Let_def split: js_arg.splits)

section \<open>Commands do not validate\<close>

text \<open>
  A registration with no field at all, on a server with one client: the
  command returns an event, the log has one event more, the member (with
  every field \<open>undefined\<close>) is in the members projection, and the client was
  sent two more messages.
\<close>

theorem validation_counterexample:
  "fst (registerMember fx_ok empty_memberData one_client)
     = Inr (with_sequenceNumber
         (createEvent ''E1'' ''t1'' MEMBER_REGISTERED
            (Member (createMember ''M1'' ''t1'' Undefined Undefined Undefined Undefined))
            Undefined) 1)
   \<and> eventHistory one_client = []
   \<and> length (eventHistory (snd (registerMember fx_ok empty_memberData one_client))) = 1
   \<and> state_members (getCurrentState (snd (registerMember fx_ok empty_memberData one_client)))
       = [Member (createMember ''M1'' ''t1'' Undefined Undefined Undefined Undefined)]
   \<and> length (received 0 (snd (registerMember fx_ok empty_memberData one_client)))
       = length (received 0 one_client) + 2"
  by code_simp

text \<open>
  Claim C6, as the code has it.  No command checks the data it is given.
  When the argument is an object, whatever its fields and however many of
  them are missing, each command returns an event of its type and the
  history is the one before with this event at the end; \<open>removePlant\<close> does
  so for every argument.  The only input the other four commands reject is
  an argument that is itself \<open>undefined\<close> or \<open>null\<close>: reading its first
  property throws a \<open>TypeError\<close> before anything is created, and the state is
  left as it was.
\<close>

theorem commands_append_whatever_the_fields:
  "(\<exists>e. fst (registerMember fx (Arg_object memberData) st) = Inr e
        \<and> event_type e = MEMBER_REGISTERED
        \<and> eventHistory (snd (registerMember fx (Arg_object memberData) st))
            = eventHistory st @ [e])
   \<and> (\<exists>e. fst (offerPlant fx (Arg_object plantData) memberId st) = Inr e
        \<and> event_type e = PLANT_OFFERED
        \<and> eventHistory (snd (offerPlant fx (Arg_object plantData) memberId st))
            = eventHistory st @ [e])
   \<and> (\<exists>e. fst (requestPlant fx (Arg_object plantData) memberId st) = Inr e
        \<and> event_type e = PLANT_WANTED
        \<and> eventHistory (snd (requestPlant fx (Arg_object plantData) memberId st))
            = eventHistory st @ [e])
   \<and> (\<exists>e. fst (sendMessage fx (Arg_object messageData) st) = Inr e
        \<and> event_type e = MESSAGE_SENT
        \<and> eventHistory (snd (sendMessage fx (Arg_object messageData) st))
            = eventHistory st @ [e])
   \<and> (\<exists>e. fst (removePlant fx plantId memberId st) = Inr e \<and> event_type e = PLANT_REMOVED
        \<and> eventHistory (snd (removePlant fx plantId memberId st)) = eventHistory st @ [e])
   \<and> registerMember fx Arg_undefined st = (Inl TypeError, st)
   \<and> registerMember fx Arg_null st = (Inl TypeError, st)
   \<and> offerPlant fx Arg_undefined memberId st = (Inl TypeError, st)
   \<and> offerPlant fx Arg_null memberId st = (Inl TypeError, st)
   \<and> requestPlant fx Arg_undefined memberId st = (Inl TypeError, st)
   \<and> requestPlant fx Arg_null memberId st = (Inl TypeError, st)
   \<and> sendMessage fx Arg_undefined st = (Inl TypeError, st)
   \<and> sendMessage fx Arg_null st = (Inl TypeError, st)"
  by (simp add: registerMember_def offerPlant_def requestPlant_def sendMessage_def
        removePlant_def Let_def append_fst append_history createEvent_def)

section \<open>The order of the messages of one append\<close>

text \<open>
  One client, one registration: the client is sent the updated members
  projection first and the event after it.
\<close>

theorem event_before_projection_update_counterexample:
  "received 0 (snd (append written ev_M1 one_client))
     = [Initial_state \<lparr>state_members = [], state_plants = [], state_messages = []\<rparr>,
        Members_updated [member_M1],
        Event_msg (with_sequenceNumber ev_M1 1)]"
  by (simp add: received_def append_wire append_begin_one_client)

text \<open>
  Claim C2, as the code has it.  In any state the server can reach, a client
  that is registered and whose response accepts writes receives, for one
  append, first the update of each projection whose filter lets the event
  through (members, then plants, then messages; at most one of the three
  filters matches one event type), computed from the accumulator of that
  pipeline, and last the event itself.  The list does not depend on the
  client, so every such client receives the same messages in the same order,
  and the client is still registered afterwards.  Nothing more is sent while
  the write settles.
\<close>

theorem projection_updates_then_event_for_every_client:
  assumes "st = run acts first_boot"
    and "res \<in> set (sseClients st)"
    and "res \<notin> set (failing st)"
  shows "received res (snd (append_begin ev st))
           = received res st
             @ (if members_filter (fst (append_begin ev st))
                then [Members_updated (map_values
                        (members_reducer (members_scan st) (fst (append_begin ev st))))]
                else [])
             @ (if plants_filter (fst (append_begin ev st))
                then [Plants_updated (map_values
                        (plants_reducer (plants_scan st) (fst (append_begin ev st))))]
                else [])
             @ (if messages_filter (fst (append_begin ev st))
                then [Messages_updated (map_values
                        (messages_reducer (messages_scan st) (fst (append_begin ev st))))]
                else [])
             @ [Event_msg (fst (append_begin ev st))]
       \<and> received res (snd (append ok ev st)) = received res (snd (append_begin ev st))
       \<and> res \<in> set (sseClients (snd (append_begin ev st)))"
proof -
  let ?e = "with_sequenceNumber ev (Suc (length (eventHistory st)))"
  let ?s1 = "st\<lparr>eventHistory := eventHistory st @ [?e]\<rparr>"
  have d: "distinct (sseClients ?s1)"
    using distinct_reachable [of acts] assms(1) by simp
  have m: "res \<in> set (sseClients ?s1)" using assms(2) by simp
  have f: "res \<notin> set (failing ?s1)" using assms(3) by simp
  note live = events_next_live [OF d m f, of ?e]
  have e: "fst (append_begin ev st) = ?e" by (rule append_begin_fst)
  have s: "snd (append_begin ev st) = persist_begin (events_next ?e ?s1)"
    by (simp add: append_begin_def Let_def)
  have r: "received res (persist_begin (events_next ?e ?s1)) = received res (events_next ?e ?s1)"
    by (simp add: persist_begin_def)
  have c: "sseClients (persist_begin (events_next ?e ?s1)) = sseClients (events_next ?e ?s1)"
    by (simp add: persist_begin_def)
  have w: "received res (snd (append ok ev st)) = received res (snd (append_begin ev st))"
    by (simp add: received_def append_wire)
  show ?thesis
    using live(1) live(3) w by (simp add: e s r c)
qed

text \<open>
  One client, one plant offered: the plants update, then the event.
\<close>

theorem projection_updates_then_event_for_every_client_witness:
  "one_client = run [Sse_connect 0] first_boot
   \<and> 0 \<in> set (sseClients one_client)
   \<and> 0 \<notin> set (failing one_client)
   \<and> received 0 (snd (append_begin ev_P1 one_client))
       = [Initial_state \<lparr>state_members = [], state_plants = [], state_messages = []\<rparr>,
          Plants_updated [plant_P1],
          Event_msg (with_sequenceNumber ev_P1 1)]"
proof -
  have a: "one_client = run [Sse_connect 0] first_boot" by (simp add: one_client_def)
  have m: "0 \<in> set (sseClients one_client)" by (simp add: one_client_eq)
  have f: "0 \<notin> set (failing one_client)" by (simp add: one_client_eq)
  have e: "fst (append_begin ev_P1 one_client) = with_sequenceNumber ev_P1 1"
    by (simp add: append_begin_fst one_client_eq)
  have t: "event_type ev_P1 = PLANT_OFFERED" "event_payload ev_P1 = plant_P1"
    by (simp_all add: ev_P1_def createEvent_def)
  have p: "payload_id plant_P1 = Str ''P1''"
    by (simp add: plant_P1_def createPlant_def)
  have r: "received 0 one_client
      = [Initial_state \<lparr>state_members = [], state_plants = [], state_messages = []\<rparr>]"
    by (simp add: one_client_eq received_def)
  have pl: "event_payload (with_sequenceNumber ev_P1 n) = plant_P1" for n
    by (simp add: with_sequenceNumber_def t)
  have sc: "plants_scan one_client = []" by (simp add: one_client_eq)
  show ?thesis
    using projection_updates_then_event_for_every_client [OF a m f, of ev_P1 written] a m f
    by (simp add: e t p r pl sc members_filter_def plants_filter_def messages_filter_def
          plants_reducer_def map_values_def)
qed

section \<open>After a restart\<close>

text \<open>
  Claim C1, at an input where the code departs from it.  A first process
  registers M1 and writes the file; the process is restarted; the second
  process loads the file, rebuilds (members: M1), and registers M2.  The
  accumulator of the \<open>scan\<close> started from the empty map of its seed, not
  from the rebuilt value, so the live members projection now holds M2 only,
  while rebuilding from the same two events gives M1 and M2.
\<close>

theorem live_projection_forgets_loaded_history:
  "eventHistory after_restart = [with_sequenceNumber ev_M1 1, with_sequenceNumber ev_M2 2]
   \<and> disk after_restart = Some [with_sequenceNumber ev_M1 1, with_sequenceNumber ev_M2 2]
   \<and> getCurrentState after_restart
       = \<lparr>state_members = [member_M2], state_plants = [], state_messages = []\<rparr>
   \<and> fst (rebuildFromHistory after_restart) = Inr ()
   \<and> getCurrentState (snd (rebuildFromHistory after_restart))
       = \<lparr>state_members = [member_M1, member_M2], state_plants = [], state_messages = []\<rparr>"
  by code_simp

end
